theory Spec2Isabelle
  imports Main "HOL-Library.Multiset"
begin

section \<open>MrsWatson: the host's main routine\<close>

text \<open>
  The development embeds \<^verbatim>\<open>main\<close> of \<^verbatim>\<open>source/MrsWatson.c\<close> and the plugin
  structure of \<^verbatim>\<open>source/Plugin.h\<close>. Everything \<^verbatim>\<open>main\<close> does that an observer
  can see (log lines, calls on the sources, on the plugin chain, on the clock and on the
  task timer) is recorded as a list of calls, in program order.
\<close>

subsection \<open>Data\<close>

text \<open>The return codes \<^verbatim>\<open>main\<close> uses.\<close>

datatype ReturnCode =
    RETURN_CODE_SUCCESS
  | RETURN_CODE_INVALID_ARGUMENT
  | RETURN_CODE_NOT_RUN
  | RETURN_CODE_INVALID_PLUGIN_CHAIN
  | RETURN_CODE_MISSING_REQUIRED_OPTION
  | RETURN_CODE_PLUGIN_ERROR
  | RETURN_CODE_IO_ERROR


text \<open>
  \<^verbatim>\<open>Plugin.h\<close>: \<^verbatim>\<open>PluginMembers\<close>. The two function pointers are the behaviour of the
  plugin on its private data (\<^verbatim>\<open>extraData\<close>, of type \<open>'x\<close>); a sample buffer is of
  type \<open>'b\<close>. \<^verbatim>\<open>main\<close> compares \<^verbatim>\<open>pluginType\<close> with a constant
  \<^verbatim>\<open>PLUGIN_TYPE_INSTRUMENT\<close> that the header does not declare, so the type of the tag
  is left open (\<open>'t\<close>) and the constant is an argument of the functions that use it.
\<close>

record ('t, 'x, 'b) PluginMembers =
  pluginType :: 't
  pluginName :: string
  "open" :: "'x \<Rightarrow> string \<Rightarrow> bool"
  process :: "'x \<Rightarrow> 'b \<Rightarrow> 'b"
  extraData :: 'x

text \<open>The calls \<^verbatim>\<open>main\<close> makes, as they are recorded. \<open>'e\<close> is the type of a MIDI event.\<close>

datatype 'e Call =
    LogError string
  | LogWarn string
  | DisplayPluginInfo
  | NewSilenceSource
  | OpenInputSource
  | OpenOutputSource
  | OpenMidiSource
  | ReadMidiEvents
  | NewTaskTimer nat
  | StartTimingTask nat
  | ReadSampleBlock nat
  | FillMidiEventsFromRange nat nat "'e list"
  | ProcessPluginChainMidiEvents "'e list"
  | ProcessPluginChainAudio
  | WriteSampleBlock
  | AdvanceAudioClock nat
  | StopAudioClock
  | StopTiming

subsection \<open>The audio clock\<close>

text \<open>
  Modelled from the spec: \<^verbatim>\<open>AudioClock.c\<close> is not among the sources. The clock is a
  single frame counter that starts at 0, \<^verbatim>\<open>advanceAudioClock\<close> adds its argument and
  \<^verbatim>\<open>getAudioClockCurrentSample\<close> reads it.
\<close>

definition initAudioClock :: nat where
  "initAudioClock = 0"

definition advanceAudioClock :: "nat \<Rightarrow> nat \<Rightarrow> nat" where
  "advanceAudioClock blocksize currentSample = currentSample + blocksize"

definition getAudioClockCurrentSample :: "nat \<Rightarrow> nat" where
  "getAudioClockCurrentSample currentSample = currentSample"

subsection \<open>The main processing loop\<close>

text \<open>
  The state of the loop of \<^verbatim>\<open>main\<close>: the input source (\<open>'s\<close> is what lies behind its
  handle), the audio clock, the flag \<^verbatim>\<open>finishedReading\<close> and the calls made so far.
\<close>

record ('s, 'e) LoopState =
  inputSource :: 's
  audioClock :: nat
  finishedReading :: bool
  calls :: "'e Call list"

text \<open>
  What the loop is given. \<^verbatim>\<open>readSampleBlock\<close> is the function pointer of the input
  source: on the source and the block size it yields the function's boolean result, the
  number of frames it filled and the source afterwards. \<^verbatim>\<open>midiSequence\<close> is
  \<open>None\<close> for \<^verbatim>\<open>NULL\<close>. \<^verbatim>\<open>fillMidiEventsFromRange\<close> yields, for a sequence, a start
  sample and a block size, its boolean result and the events it appended to the list.
\<close>

record ('s, 'q, 'e) LoopEnv =
  readSampleBlock :: "'s \<Rightarrow> nat \<Rightarrow> bool \<times> nat \<times> 's"
  midiSequence :: "'q option"
  fillMidiEventsFromRange :: "'q \<Rightarrow> nat \<Rightarrow> nat \<Rightarrow> bool \<times> 'e list"
  blocksize :: nat
  hostTaskId :: nat

text \<open>The calls of the MIDI part of one block, and the flag it computes (lines 225-232).\<close>

definition midiPart ::
  "('s, 'q, 'e) LoopEnv \<Rightarrow> nat \<Rightarrow> bool \<Rightarrow> bool \<times> 'e Call list" where
  "midiPart env clock fin =
     (case midiSequence env of
        None \<Rightarrow> (fin, [])
      | Some sq \<Rightarrow>
          (let (more, evs) =
                 fillMidiEventsFromRange env sq (getAudioClockCurrentSample clock) (blocksize env)
           in (\<not> more,
               [FillMidiEventsFromRange (getAudioClockCurrentSample clock) (blocksize env) evs,
                ProcessPluginChainMidiEvents evs,
                StartTimingTask (hostTaskId env)])))"

text \<open>
  One pass through the body of the loop (lines 221-238): the calls it makes, in order,
  and the state it leaves.
\<close>

definition blockCalls ::
  "('s, 'q, 'e) LoopEnv \<Rightarrow> ('s, 'e) LoopState \<Rightarrow> 'e Call list" where
  "blockCalls env st =
     (let (ok, frames, src) = readSampleBlock env (inputSource st) (blocksize env);
          (fin, midiCalls) = midiPart env (audioClock st) (\<not> ok)
      in [StartTimingTask (hostTaskId env), ReadSampleBlock frames]
         @ midiCalls
         @ [ProcessPluginChainAudio, StartTimingTask (hostTaskId env),
            WriteSampleBlock, AdvanceAudioClock (blocksize env)])"

definition blockBody ::
  "('s, 'q, 'e) LoopEnv \<Rightarrow> ('s, 'e) LoopState \<Rightarrow> ('s, 'e) LoopState" where
  "blockBody env st =
     (let (ok, frames, src) = readSampleBlock env (inputSource st) (blocksize env);
          (fin, midiCalls) = midiPart env (audioClock st) (\<not> ok)
      in \<lparr> inputSource = src,
           audioClock = advanceAudioClock (blocksize env) (audioClock st),
           finishedReading = fin,
           calls = calls st @ blockCalls env st \<rparr>)"

text \<open>
  \<^verbatim>\<open>while(!finishedReading) { ... }\<close>. The loop need not end (a source that always
  fills its block, with no MIDI sequence), so the result is optional: \<open>None\<close> is a loop
  that runs forever.
\<close>

partial_function (option) mainLoop ::
  "('s, 'q, 'e) LoopEnv \<Rightarrow> ('s, 'e) LoopState \<Rightarrow> ('s, 'e) LoopState option" where
  "mainLoop env st =
     (if finishedReading st then Some st else mainLoop env (blockBody env st))"

text \<open>The state in which \<^verbatim>\<open>main\<close> enters the loop (lines 51 and 212).\<close>

definition loopStart :: "'s \<Rightarrow> 'e Call list \<Rightarrow> ('s, 'e) LoopState" where
  "loopStart src cs =
     \<lparr> inputSource = src, audioClock = initAudioClock, finishedReading = False, calls = cs \<rparr>"

text \<open>The state after \<open>n\<close> passes through the body.\<close>

fun afterBlocks ::
  "('s, 'q, 'e) LoopEnv \<Rightarrow> nat \<Rightarrow> ('s, 'e) LoopState \<Rightarrow> ('s, 'e) LoopState" where
  "afterBlocks env 0 st = st"
| "afterBlocks env (Suc n) st = afterBlocks env n (blockBody env st)"

subsection \<open>The task timer\<close>

text \<open>
  Modelled from the spec: \<^verbatim>\<open>TaskTimer.c\<close> is not among the sources. A timer has a
  fixed number of slots; starting a task closes the measurement window of the task that
  was running and opens one for the new task; stopping closes the open window. The time
  of each call (\<open>now\<close>, in milliseconds) is an argument.
\<close>

record TaskTimer =
  numTasks :: nat
  currentTask :: "nat option"
  startTime :: nat
  totalTaskTimes :: "nat list"

definition newTaskTimer :: "nat \<Rightarrow> TaskTimer" where
  "newTaskTimer n =
     \<lparr> numTasks = n, currentTask = None, startTime = 0, totalTaskTimes = replicate n 0 \<rparr>"








subsection \<open>The routine \<^verbatim>\<open>main\<close>\<close>

text \<open>
  A sample source as \<^verbatim>\<open>main\<close> uses it: its name, whether opening it succeeds, what lies
  behind the handle, and its function pointer \<^verbatim>\<open>readSampleBlock\<close> (see \<open>LoopEnv\<close>).
  \<^verbatim>\<open>writeSampleBlock\<close> returns nothing that \<^verbatim>\<open>main\<close> reads.
\<close>

record 's SampleSource =
  sourceName :: string
  openSampleSource :: bool
  handle :: 's
  sourceReadSampleBlock :: "'s \<Rightarrow> nat \<Rightarrow> bool \<times> nat \<times> 's"

text \<open>
  A MIDI source: its name, whether opening it succeeds, and what \<^verbatim>\<open>readMidiEvents\<close>
  loads (\<open>None\<close> when it fails).
\<close>

record 'q MidiSource =
  midiSourceName :: string
  openMidiSource :: bool
  readMidiEvents :: "'q option"

text \<open>
  What \<^verbatim>\<open>main\<close> is given: the outcome of the command line (lines 61-140) and of the
  calls whose code is elsewhere. \<^verbatim>\<open>pluginChain\<close> is the chain after the option loop,
  \<^verbatim>\<open>addPluginsFromArgumentString\<close> is \<open>True\<close> when no plugin option failed.
  \<^verbatim>\<open>main\<close> never calls through the function pointers of a plugin nor reads its private
  data, so both are kept at type \<open>unit\<close>. \<^verbatim>\<open>instrumentType\<close> is the constant
  \<^verbatim>\<open>PLUGIN_TYPE_INSTRUMENT\<close>, \<^verbatim>\<open>silenceSource\<close> is what
  \<^verbatim>\<open>newSampleSource(SAMPLE_SOURCE_TYPE_SILENCE, NULL)\<close> returns and \<^verbatim>\<open>fillMidiEvents\<close>
  is the function \<^verbatim>\<open>fillMidiEventsFromRange\<close>. \<^verbatim>\<open>getBlocksize\<close> is the block size in
  frames, a natural number (the spec has it positive); sample positions are natural numbers
  too, without the wrap-around of a machine integer.
\<close>

record ('s, 't, 'q, 'e) Invocation =
  parseCommandLine :: bool
  argc :: nat
  optionHelp :: bool
  optionVersion :: bool
  optionFileTypes :: bool
  addPluginsFromArgumentString :: bool
  pluginChain :: "('t, unit, unit) PluginMembers list"
  shouldDisplayPluginInfo :: bool
  inputSourceOption :: "'s SampleSource option"
  outputSourceOption :: "'s SampleSource option"
  midiSourceOption :: "'q MidiSource option"
  initializePluginChain :: bool
  getBlocksize :: nat
  silenceSource :: "'s SampleSource"
  instrumentType :: 't
  fillMidiEvents :: "'q \<Rightarrow> nat \<Rightarrow> nat \<Rightarrow> bool \<times> 'e list"

text \<open>A run that stops early: the return code and the calls made.\<close>

type_synonym 'e Outcome = "ReturnCode \<times> 'e Call list"

text \<open>Lines 167-182: the input source, or the silent source for an instrument.\<close>

definition verifyInputSource ::
  "('s, 't, 'q, 'e) Invocation \<Rightarrow> ('t, unit, unit) PluginMembers
     \<Rightarrow> 'e Outcome + ('s SampleSource \<times> 'e Call list)" where
  "verifyInputSource invo headPlugin =
     (case inputSourceOption invo of
        Some src \<Rightarrow> Inr (src, [])
      | None \<Rightarrow>
          if pluginType headPlugin = instrumentType invo
          then (case midiSourceOption invo of
                  None \<Rightarrow>
                    Inl (RETURN_CODE_MISSING_REQUIRED_OPTION,
                         [NewSilenceSource,
                          LogError ''Plugin chain contains an instrument, but no MIDI source was supplied''])
                | Some ms \<Rightarrow> Inr (silenceSource invo, [NewSilenceSource]))
          else Inl (RETURN_CODE_MISSING_REQUIRED_OPTION, [LogError ''No input source'']))"

text \<open>A name between single quotes, as the log lines print it.\<close>

definition quoted :: "string \<Rightarrow> string" where
  "quoted name = [CHR 0x27] @ name @ [CHR 0x27]"

text \<open>Lines 185-206: opening the sources and loading the MIDI sequence.\<close>

definition prepareSources ::
  "('s, 't, 'q, 'e) Invocation \<Rightarrow> 's SampleSource \<Rightarrow> 's SampleSource
     \<Rightarrow> 'e Outcome + ('q option \<times> 'e Call list)" where
  "prepareSources invo src out =
     (if \<not> openSampleSource src
      then Inl (RETURN_CODE_IO_ERROR,
                [OpenInputSource,
                 LogError (''Input source '' @ quoted (sourceName src) @ '' could not be opened'')])
      else if \<not> openSampleSource out
      then Inl (RETURN_CODE_IO_ERROR,
                [OpenInputSource, OpenOutputSource,
                 LogError (''Output source '' @ quoted (sourceName out) @ '' could not be opened'')])
      else (case midiSourceOption invo of
              None \<Rightarrow> Inr (None, [OpenInputSource, OpenOutputSource])
            | Some ms \<Rightarrow>
                if \<not> openMidiSource ms
                then Inl (RETURN_CODE_IO_ERROR,
                          [OpenInputSource, OpenOutputSource, OpenMidiSource,
                           LogError (''MIDI source '' @ quoted (midiSourceName ms) @ '' could not be opened'')])
                else (case readMidiEvents ms of
                        None \<Rightarrow>
                          Inl (RETURN_CODE_IO_ERROR,
                               [OpenInputSource, OpenOutputSource, OpenMidiSource, ReadMidiEvents,
                                LogWarn (''Failed reading MIDI events from source '' @ quoted (midiSourceName ms))])
                      | Some sq \<Rightarrow>
                          Inr (Some sq,
                               [OpenInputSource, OpenOutputSource, OpenMidiSource, ReadMidiEvents]))))"

text \<open>Lines 208-217: what the loop is given.\<close>

definition loopEnv ::
  "('s, 't, 'q, 'e) Invocation \<Rightarrow> 's SampleSource \<Rightarrow> 'q option \<Rightarrow> ('s, 'q, 'e) LoopEnv" where
  "loopEnv invo src sq =
     \<lparr> readSampleBlock = sourceReadSampleBlock src,
       midiSequence = sq,
       fillMidiEventsFromRange = fillMidiEvents invo,
       blocksize = getBlocksize invo,
       hostTaskId = numTasks (newTaskTimer (length (pluginChain invo) + 1)) - 1 \<rparr>"

text \<open>Lines 208-277: the loop and the shutdown.\<close>

definition processingStart ::
  "('s, 't, 'q, 'e) Invocation \<Rightarrow> 's SampleSource \<Rightarrow> 'e Call list \<Rightarrow> ('s, 'e) LoopState" where
  "processingStart invo src cs =
     loopStart (handle src) (cs @ [NewTaskTimer (length (pluginChain invo) + 1)])"

definition processing ::
  "('s, 't, 'q, 'e) Invocation \<Rightarrow> 's SampleSource \<Rightarrow> 'q option \<Rightarrow> 'e Call list
     \<Rightarrow> 'e Outcome option" where
  "processing invo src sq cs =
     (case mainLoop (loopEnv invo src sq) (processingStart invo src cs) of
        None \<Rightarrow> None
      | Some st \<Rightarrow> Some (RETURN_CODE_SUCCESS, calls st @ [StopAudioClock, StopTiming]))"

text \<open>Lines 158-160: the plugin information, when asked for.\<close>

definition displayCalls :: "('s, 't, 'q, 'e) Invocation \<Rightarrow> 'e Call list" where
  "displayCalls invo = (if shouldDisplayPluginInfo invo then [DisplayPluginInfo] else [])"

text \<open>Lines 142-277: from the check of the plugin chain on.\<close>

definition run :: "('s, 't, 'q, 'e) Invocation \<Rightarrow> 'e Outcome option" where
  "run invo =
     (case pluginChain invo of
        [] \<Rightarrow> Some (RETURN_CODE_MISSING_REQUIRED_OPTION, [LogError ''No plugins loaded''])
      | headPlugin # rest \<Rightarrow>
          if \<not> initializePluginChain invo
          then Some (RETURN_CODE_PLUGIN_ERROR, [LogError ''Could not initialize plugin chain''])
          else
            (let cs0 = displayCalls invo
             in case outputSourceOption invo of
                  None \<Rightarrow>
                    Some (RETURN_CODE_MISSING_REQUIRED_OPTION, cs0 @ [LogError ''No output source''])
                | Some out \<Rightarrow>
                    (case verifyInputSource invo headPlugin of
                       Inl (rc, cs) \<Rightarrow> Some (rc, cs0 @ cs)
                     | Inr (src, cs1) \<Rightarrow>
                         (case prepareSources invo src out of
                            Inl (rc, cs) \<Rightarrow> Some (rc, cs0 @ cs1 @ cs)
                          | Inr (sq, cs2) \<Rightarrow> processing invo src sq (cs0 @ cs1 @ cs2)))))"

text \<open>
  \<^verbatim>\<open>main\<close>. The result is \<open>None\<close> when the loop runs forever, and otherwise the
  return code with the calls made.
\<close>

definition main :: "('s, 't, 'q, 'e) Invocation \<Rightarrow> 'e Outcome option" where
  "main invo =
     (if \<not> parseCommandLine invo then Some (RETURN_CODE_INVALID_ARGUMENT, [])
      else if optionHelp invo \<or> argc invo = 1 then Some (RETURN_CODE_NOT_RUN, [])
      else if optionVersion invo then Some (RETURN_CODE_NOT_RUN, [])
      else if optionFileTypes invo then Some (RETURN_CODE_NOT_RUN, [])
      else if \<not> addPluginsFromArgumentString invo
      then Some (RETURN_CODE_INVALID_PLUGIN_CHAIN, [])
      else run invo)"

subsection \<open>Counting calls\<close>

fun isReadSampleBlock :: "'e Call \<Rightarrow> bool" where
  "isReadSampleBlock (ReadSampleBlock n) = True"
| "isReadSampleBlock c = False"

fun isAdvanceAudioClock :: "'e Call \<Rightarrow> bool" where
  "isAdvanceAudioClock (AdvanceAudioClock n) = True"
| "isAdvanceAudioClock c = False"

definition numReadCalls :: "'e Call list \<Rightarrow> nat" where
  "numReadCalls cs = length (filter isReadSampleBlock cs)"

definition numWriteCalls :: "'e Call list \<Rightarrow> nat" where
  "numWriteCalls cs = length (filter (\<lambda>c. c = WriteSampleBlock) cs)"

definition numAdvanceCalls :: "'e Call list \<Rightarrow> nat" where
  "numAdvanceCalls cs = length (filter isAdvanceAudioClock cs)"

text \<open>The frames of the calls of \<^verbatim>\<open>readSampleBlock\<close>, in order.\<close>

fun framesRead :: "'e Call list \<Rightarrow> nat list" where
  "framesRead [] = []"
| "framesRead (ReadSampleBlock n # cs) = n # framesRead cs"
| "framesRead (c # cs) = framesRead cs"

text \<open>The MIDI range queries: start, length and result of each, in order.\<close>

fun midiQueries :: "'e Call list \<Rightarrow> (nat \<times> nat \<times> 'e list) list" where
  "midiQueries [] = []"
| "midiQueries (FillMidiEventsFromRange start len evs # cs) = (start, len, evs) # midiQueries cs"
| "midiQueries (c # cs) = midiQueries cs"

text \<open>Calls on a sample source or on the MIDI source: opening, reading, writing.\<close>

fun isSourceIO :: "'e Call \<Rightarrow> bool" where
  "isSourceIO OpenInputSource = True"
| "isSourceIO OpenOutputSource = True"
| "isSourceIO OpenMidiSource = True"
| "isSourceIO ReadMidiEvents = True"
| "isSourceIO (ReadSampleBlock n) = True"
| "isSourceIO WriteSampleBlock = True"
| "isSourceIO c = False"

subsection \<open>Sources and sequences for the scenarios\<close>

text \<open>
  Modelled from the spec: the code of the sample sources is not among the sources. A
  source that holds a number of frames fills as many frames of the block as it has left;
  \<^verbatim>\<open>main\<close> negates the result into \<^verbatim>\<open>finishedReading\<close>, which the spec has true once
  fewer frames than the block size are returned. What lies behind the handle is the
  number of frames left.
\<close>

definition fileReadSampleBlock :: "nat \<Rightarrow> nat \<Rightarrow> bool \<times> nat \<times> nat" where
  "fileReadSampleBlock left bs =
     (let frames = min left bs in (\<not> frames < bs, frames, left - frames))"

definition fileSource :: "string \<Rightarrow> nat \<Rightarrow> nat SampleSource" where
  "fileSource name frames =
     \<lparr> sourceName = name, openSampleSource = True, handle = frames,
       sourceReadSampleBlock = fileReadSampleBlock \<rparr>"

text \<open>
  Modelled from the spec: the silent source never fails to open or to read and fills
  every block.
\<close>

definition silentReadSampleBlock :: "nat \<Rightarrow> nat \<Rightarrow> bool \<times> nat \<times> nat" where
  "silentReadSampleBlock left bs = (True, bs, left)"

definition newSilenceSource :: "nat SampleSource" where
  "newSilenceSource =
     \<lparr> sourceName = ''(silence)'', openSampleSource = True, handle = 0,
       sourceReadSampleBlock = silentReadSampleBlock \<rparr>"

text \<open>
  Modelled from the spec: \<^verbatim>\<open>MidiEvent\<close> and \<^verbatim>\<open>MidiSequence\<close> are not among the sources.
  An event has an absolute sample timestamp and its message bytes; a sequence is the
  list of its events.
\<close>

record MidiEvent =
  timestamp :: nat
  message :: "nat list"

definition inRange :: "nat \<Rightarrow> nat \<Rightarrow> MidiEvent \<Rightarrow> bool" where
  "inRange start len e = (start \<le> timestamp e \<and> timestamp e < start + len)"

text \<open>
  Modelled from the spec: \<^verbatim>\<open>fillMidiEventsFromRange\<close> is not among the sources. The
  query returns, in the order of the sequence, every event with
  \<open>start \<le> timestamp < start + length\<close>, and changes nothing. Neither the sources nor
  the spec say what its boolean result is, which \<^verbatim>\<open>main\<close> negates into
  \<^verbatim>\<open>finishedReading\<close>: it is the parameter \<open>remain\<close>.
\<close>

definition rangeQuery ::
  "(MidiEvent list \<Rightarrow> nat \<Rightarrow> nat \<Rightarrow> bool) \<Rightarrow> MidiEvent list \<Rightarrow> nat \<Rightarrow> nat
     \<Rightarrow> bool \<times> MidiEvent list" where
  "rangeQuery remain sq start len = (remain sq start len, filter (inRange start len) sq)"

text \<open>
  A boolean result for the scenarios, which need one to run: some event lies at or after
  the end of the window. It is an assumption of the scenarios only.
\<close>

definition eventsRemain :: "MidiEvent list \<Rightarrow> nat \<Rightarrow> nat \<Rightarrow> bool" where
  "eventsRemain sq start len = list_ex (\<lambda>e. start + len \<le> timestamp e) sq"

text \<open>The largest timestamp of a sequence (0 for the empty one).\<close>

definition lastTimestamp :: "MidiEvent list \<Rightarrow> nat" where
  "lastTimestamp sq = fold max (map timestamp sq) 0"

text \<open>
  Modelled from the spec: the role tag of a plugin (effect or instrument), with which
  \<^verbatim>\<open>main\<close> compares \<^verbatim>\<open>pluginType\<close>; \<^verbatim>\<open>Plugin.h\<close> declares neither value.
\<close>

datatype PluginRole = PLUGIN_TYPE_EFFECT | PLUGIN_TYPE_INSTRUMENT

definition newPlugin :: "'t \<Rightarrow> string \<Rightarrow> ('t, unit, unit) PluginMembers" where
  "newPlugin t name =
     \<lparr> pluginType = t, pluginName = name, open = (\<lambda>x n. True), process = (\<lambda>x b. b),
       extraData = () \<rparr>"

text \<open>
  An invocation with one plugin of the given role, the given sources and block size,
  nothing else asked for, and every collaborator succeeding.
\<close>

definition invocation ::
  "PluginRole \<Rightarrow> nat SampleSource option \<Rightarrow> nat SampleSource option
     \<Rightarrow> MidiEvent list MidiSource option \<Rightarrow> nat
     \<Rightarrow> (nat, PluginRole, MidiEvent list, MidiEvent) Invocation" where
  "invocation role inp out midi bs =
     \<lparr> parseCommandLine = True, argc = 5,
       optionHelp = False, optionVersion = False, optionFileTypes = False,
       addPluginsFromArgumentString = True,
       pluginChain = [newPlugin role ''plugin''],
       shouldDisplayPluginInfo = False,
       inputSourceOption = inp, outputSourceOption = out, midiSourceOption = midi,
       initializePluginChain = True,
       getBlocksize = bs,
       silenceSource = newSilenceSource,
       instrumentType = PLUGIN_TYPE_INSTRUMENT,
       fillMidiEvents = rangeQuery eventsRemain \<rparr>"

definition midiFile :: "MidiEvent list \<Rightarrow> MidiEvent list MidiSource" where
  "midiFile sq = \<lparr> midiSourceName = ''song.mid'', openMidiSource = True, readMidiEvents = Some sq \<rparr>"

definition eventAt :: "nat \<Rightarrow> MidiEvent" where
  "eventAt t = \<lparr> timestamp = t, message = [144, 60, 100] \<rparr>"

text \<open>The calls of one block without MIDI, given the host's slot, the frames read and the block size.\<close>

definition blockOf :: "nat \<Rightarrow> nat \<Rightarrow> nat \<Rightarrow> 'e Call list" where
  "blockOf host frames bs =
     [StartTimingTask host, ReadSampleBlock frames, ProcessPluginChainAudio,
      StartTimingTask host, WriteSampleBlock, AdvanceAudioClock bs]"

text \<open>Scenario C of the spec: an input of exactly 1000 frames, block size 256, no MIDI.\<close>

definition scenarioC :: "(nat, PluginRole, MidiEvent list, MidiEvent) Invocation" where
  "scenarioC =
     invocation PLUGIN_TYPE_EFFECT (Some (fileSource ''in.pcm'' 1000))
       (Some (fileSource ''out.pcm'' 0)) None 256"

text \<open>The calls of the run of scenario C.\<close>

definition scenarioC_calls :: "MidiEvent Call list" where
  "scenarioC_calls =
     [OpenInputSource, OpenOutputSource, NewTaskTimer 2]
     @ blockOf 1 256 256 @ blockOf 1 256 256 @ blockOf 1 256 256 @ blockOf 1 232 256
     @ [StopAudioClock, StopTiming]"

text \<open>
  The calls of one block with a MIDI sequence, given the host's slot, the frames read,
  the start and length of the window and the events of the window.
\<close>

definition midiBlockOf :: "nat \<Rightarrow> nat \<Rightarrow> nat \<Rightarrow> nat \<Rightarrow> 'e list \<Rightarrow> 'e Call list" where
  "midiBlockOf host frames start bs evs =
     [StartTimingTask host, ReadSampleBlock frames,
      FillMidiEventsFromRange start bs evs, ProcessPluginChainMidiEvents evs,
      StartTimingTask host, ProcessPluginChainAudio, StartTimingTask host,
      WriteSampleBlock, AdvanceAudioClock bs]"

text \<open>
  Scenario D of the spec: events at samples 0, 300 and 600, block size 256; the chain is
  led by an instrument and no input source is given.
\<close>

definition scenarioD_sequence :: "MidiEvent list" where
  "scenarioD_sequence = [eventAt 0, eventAt 300, eventAt 600]"

definition scenarioD :: "(nat, PluginRole, MidiEvent list, MidiEvent) Invocation" where
  "scenarioD =
     invocation PLUGIN_TYPE_INSTRUMENT None (Some (fileSource ''out.pcm'' 0))
       (Some (midiFile scenarioD_sequence)) 256"

definition scenarioD_env :: "(nat, MidiEvent list, MidiEvent) LoopEnv" where
  "scenarioD_env = loopEnv scenarioD newSilenceSource (Some scenarioD_sequence)"

definition scenarioD_calls :: "MidiEvent Call list" where
  "scenarioD_calls =
     [NewSilenceSource, OpenInputSource, OpenOutputSource, OpenMidiSource, ReadMidiEvents,
      NewTaskTimer 2]
     @ midiBlockOf 1 256 0 256 [eventAt 0]
     @ midiBlockOf 1 256 256 256 [eventAt 300]
     @ midiBlockOf 1 256 512 256 [eventAt 600]
     @ [StopAudioClock, StopTiming]"

text \<open>The boolean result of the call of \<^verbatim>\<open>readSampleBlock\<close> in the block that starts in a state.\<close>

definition readResult :: "('s, 'q, 'e) LoopEnv \<Rightarrow> ('s, 'e) LoopState \<Rightarrow> bool" where
  "readResult env st = fst (readSampleBlock env (inputSource st) (blocksize env))"

text \<open>
  Invocations for the checks of \<^verbatim>\<open>main\<close>: no plugin at all; an instrument with neither
  input nor MIDI source, with and without an output source; an effect without input; an
  instrument that is given an input source; a chain that fails to initialise.
\<close>

definition noPlugins :: "(nat, PluginRole, MidiEvent list, MidiEvent) Invocation" where
  "noPlugins =
     (invocation PLUGIN_TYPE_EFFECT (Some (fileSource ''in.pcm'' 1000))
        (Some (fileSource ''out.pcm'' 0)) None 256) \<lparr> pluginChain := [] \<rparr>"

definition scenarioB :: "(nat, PluginRole, MidiEvent list, MidiEvent) Invocation" where
  "scenarioB =
     invocation PLUGIN_TYPE_INSTRUMENT None (Some (fileSource ''out.pcm'' 0)) None 256"

definition scenarioB_noOutput :: "(nat, PluginRole, MidiEvent list, MidiEvent) Invocation" where
  "scenarioB_noOutput = invocation PLUGIN_TYPE_INSTRUMENT None None None 256"

definition scenarioB_initFails :: "(nat, PluginRole, MidiEvent list, MidiEvent) Invocation" where
  "scenarioB_initFails = scenarioB \<lparr> initializePluginChain := False \<rparr>"

definition effectNoInput :: "(nat, PluginRole, MidiEvent list, MidiEvent) Invocation" where
  "effectNoInput =
     invocation PLUGIN_TYPE_EFFECT None (Some (fileSource ''out.pcm'' 0)) None 256"




text \<open>The calls of the first \<open>n\<close> passes through the body of the loop, pass by pass.\<close>

fun blocksOf ::
  "('s, 'q, 'e) LoopEnv \<Rightarrow> nat \<Rightarrow> ('s, 'e) LoopState \<Rightarrow> 'e Call list list" where
  "blocksOf env 0 st = []"
| "blocksOf env (Suc n) st = blockCalls env st # blocksOf env n (blockBody env st)"

text \<open>
  The calls of one whole pass through the body (lines 221-238), given the host's slot and
  the block size: a read, with a MIDI sequence the range query and the MIDI dispatch, then
  the audio processing, the write and the advance of the clock, in this order and with
  nothing left out.
\<close>

definition isFullBlock :: "nat \<Rightarrow> nat \<Rightarrow> 'e Call list \<Rightarrow> bool" where
  "isFullBlock host bs cs =
     (case framesRead cs of
        [frames] \<Rightarrow>
          cs = blockOf host frames bs
          \<or> (case midiQueries cs of
                [(start, len, evs)] \<Rightarrow> len = bs \<and> cs = midiBlockOf host frames start bs evs
              | _ \<Rightarrow> False)
      | _ \<Rightarrow> False)"

definition numProcessCalls :: "'e Call list \<Rightarrow> nat" where
  "numProcessCalls cs = length (filter (\<lambda>c. c = ProcessPluginChainAudio) cs)"

text \<open>The calls \<^verbatim>\<open>main\<close> makes before it creates the task timer (lines 142-211).\<close>

fun isSetupCall :: "'e Call \<Rightarrow> bool" where
  "isSetupCall (LogError m) = True"
| "isSetupCall (LogWarn m) = True"
| "isSetupCall DisplayPluginInfo = True"
| "isSetupCall NewSilenceSource = True"
| "isSetupCall OpenInputSource = True"
| "isSetupCall OpenOutputSource = True"
| "isSetupCall OpenMidiSource = True"
| "isSetupCall ReadMidiEvents = True"
| "isSetupCall c = False"

text \<open>
  A run whose input source is at its end from the first read on (a file of 0 frames)
  while the MIDI sequence of scenario D keeps the loop going for three blocks.
\<close>

definition endedInput :: "(nat, PluginRole, MidiEvent list, MidiEvent) Invocation" where
  "endedInput =
     invocation PLUGIN_TYPE_INSTRUMENT (Some (fileSource ''in.pcm'' 0))
       (Some (fileSource ''out.pcm'' 0)) (Some (midiFile scenarioD_sequence)) 256"

definition endedInput_calls :: "MidiEvent Call list" where
  "endedInput_calls =
     [OpenInputSource, OpenOutputSource, OpenMidiSource, ReadMidiEvents, NewTaskTimer 2]
     @ midiBlockOf 1 0 0 256 [eventAt 0]
     @ midiBlockOf 1 0 256 256 [eventAt 300]
     @ midiBlockOf 1 0 512 256 [eventAt 600]
     @ [StopAudioClock, StopTiming]"

subsection \<open>The calls of a run with their times\<close>














text \<open>The calls that occur in the body of the loop, given the host's slot.\<close>

fun isBodyCall :: "nat \<Rightarrow> 'e Call \<Rightarrow> bool" where
  "isBodyCall host (StartTimingTask task) = (task = host)"
| "isBodyCall host (ReadSampleBlock n) = True"
| "isBodyCall host (FillMidiEventsFromRange start len evs) = True"
| "isBodyCall host (ProcessPluginChainMidiEvents evs) = True"
| "isBodyCall host ProcessPluginChainAudio = True"
| "isBodyCall host WriteSampleBlock = True"
| "isBodyCall host (AdvanceAudioClock n) = True"
| "isBodyCall host c = False"







subsection \<open>General facts about the loop\<close>

lemma afterBlocks_Suc_right:
  "afterBlocks env (Suc n) st = blockBody env (afterBlocks env n st)"
  by (induction n arbitrary: st) simp_all

lemma mainLoop_afterBlocks:
  assumes "\<And>j. j < n \<Longrightarrow> \<not> finishedReading (afterBlocks env j st)"
  shows "mainLoop env st = mainLoop env (afterBlocks env n st)"
  using assms
proof (induction n arbitrary: st)
  case 0
  show ?case by simp
next
  case (Suc n)
  have nf: "\<not> finishedReading st" using Suc.prems [of 0] by simp
  have "mainLoop env st = mainLoop env (blockBody env st)"
    using nf by (subst mainLoop.simps) simp
  also have "\<dots> = mainLoop env (afterBlocks env n (blockBody env st))"
  proof (rule Suc.IH)
    fix j assume "j < n"
    then show "\<not> finishedReading (afterBlocks env j (blockBody env st))"
      using Suc.prems [of "Suc j"] by simp
  qed
  finally show ?case by simp
qed

lemma mainLoop_stops:
  assumes "\<And>j. j < n \<Longrightarrow> \<not> finishedReading (afterBlocks env j st)"
    and "finishedReading (afterBlocks env n st)"
  shows "mainLoop env st = Some (afterBlocks env n st)"
proof -
  have "mainLoop env st = mainLoop env (afterBlocks env n st)"
    using assms(1) by (rule mainLoop_afterBlocks)
  also have "\<dots> = Some (afterBlocks env n st)"
    using assms(2) by (subst mainLoop.simps) simp
  finally show ?thesis .
qed

lemma mainLoop_Some_afterBlocks:
  fixes env :: "('s, 'q, 'e) LoopEnv" and st st' :: "('s, 'e) LoopState"
  assumes "mainLoop env st = Some st'"
  shows "\<exists>n. st' = afterBlocks env n st \<and> finishedReading st'
        \<and> (\<forall>j<n. \<not> finishedReading (afterBlocks env j st))"
proof (rule mainLoop.raw_induct [where P = "\<lambda>env st st'.
         \<exists>n. st' = afterBlocks env n st \<and> finishedReading st'
           \<and> (\<forall>j<n. \<not> finishedReading (afterBlocks env j st))", OF _ assms])
  fix f and env :: "('s, 'q, 'e) LoopEnv" and st st' :: "('s, 'e) LoopState"
  assume IH: "\<And>env st st'. f env st = Some st' \<Longrightarrow>
         \<exists>n. st' = afterBlocks env n st \<and> finishedReading st'
           \<and> (\<forall>j<n. \<not> finishedReading (afterBlocks env j st))"
    and eq: "(if finishedReading st then Some st else f env (blockBody env st)) = Some st'"
  show "\<exists>n. st' = afterBlocks env n st \<and> finishedReading st'
           \<and> (\<forall>j<n. \<not> finishedReading (afterBlocks env j st))"
  proof (cases "finishedReading st")
    case True
    with eq have "st' = st" by simp
    with True show ?thesis by (intro exI [of _ 0]) simp
  next
    case False
    with eq have "f env (blockBody env st) = Some st'" by simp
    from IH [OF this] obtain n where
      n: "st' = afterBlocks env n (blockBody env st)" "finishedReading st'"
         "\<forall>j<n. \<not> finishedReading (afterBlocks env j (blockBody env st))"
      by blast
    have "\<forall>j<Suc n. \<not> finishedReading (afterBlocks env j st)"
    proof (intro allI impI)
      fix j assume "j < Suc n"
      then show "\<not> finishedReading (afterBlocks env j st)"
        using False n(3) by (cases j) simp_all
    qed
    with n(1,2) show ?thesis by (intro exI [of _ "Suc n"]) simp
  qed
qed

lemma audioClock_blockBody:
  "audioClock (blockBody env st) = audioClock st + blocksize env"
  by (simp add: blockBody_def advanceAudioClock_def split: prod.splits)

lemma audioClock_afterBlocks:
  "audioClock (afterBlocks env n st) = audioClock st + n * blocksize env"
  by (induction n arbitrary: st) (simp_all add: audioClock_blockBody)

lemma calls_blockBody: "calls (blockBody env st) = calls st @ blockCalls env st"
  by (simp add: blockBody_def split: prod.splits)

lemma blockCalls_shape:
  "\<exists>frames midi. blockCalls env st =
      [StartTimingTask (hostTaskId env), ReadSampleBlock frames] @ midi
      @ [ProcessPluginChainAudio, StartTimingTask (hostTaskId env),
         WriteSampleBlock, AdvanceAudioClock (blocksize env)]
    \<and> midi = snd (midiPart env (audioClock st)
                 (\<not> fst (readSampleBlock env (inputSource st) (blocksize env))))"
  by (simp add: blockCalls_def split: prod.splits)

lemma midiPart_counts:
  "numReadCalls (snd (midiPart env c f)) = 0"
  "numWriteCalls (snd (midiPart env c f)) = 0"
  "numAdvanceCalls (snd (midiPart env c f)) = 0"
  by (simp_all add: midiPart_def numReadCalls_def numWriteCalls_def numAdvanceCalls_def
      split: option.splits prod.splits)

lemma num_append:
  "numReadCalls (xs @ ys) = numReadCalls xs + numReadCalls ys"
  "numWriteCalls (xs @ ys) = numWriteCalls xs + numWriteCalls ys"
  "numAdvanceCalls (xs @ ys) = numAdvanceCalls xs + numAdvanceCalls ys"
  by (simp_all add: numReadCalls_def numWriteCalls_def numAdvanceCalls_def)

lemma blockCalls_counts:
  "numReadCalls (blockCalls env st) = 1"
  "numWriteCalls (blockCalls env st) = 1"
  "numAdvanceCalls (blockCalls env st) = 1"
proof -
  obtain frames midi where
    eq: "blockCalls env st =
      [StartTimingTask (hostTaskId env), ReadSampleBlock frames] @ midi
      @ [ProcessPluginChainAudio, StartTimingTask (hostTaskId env),
         WriteSampleBlock, AdvanceAudioClock (blocksize env)]"
    and midi: "midi = snd (midiPart env (audioClock st)
                 (\<not> fst (readSampleBlock env (inputSource st) (blocksize env))))"
    using blockCalls_shape by blast
  have m: "numReadCalls midi = 0" "numWriteCalls midi = 0" "numAdvanceCalls midi = 0"
    unfolding midi by (rule midiPart_counts)+
  show "numReadCalls (blockCalls env st) = 1"
    unfolding eq num_append m by (simp add: numReadCalls_def)
  show "numWriteCalls (blockCalls env st) = 1"
    unfolding eq num_append m by (simp add: numWriteCalls_def)
  show "numAdvanceCalls (blockCalls env st) = 1"
    unfolding eq num_append m by (simp add: numAdvanceCalls_def)
qed

lemma counts_afterBlocks:
  "numReadCalls (calls (afterBlocks env n st)) = numReadCalls (calls st) + n"
  "numWriteCalls (calls (afterBlocks env n st)) = numWriteCalls (calls st) + n"
  "numAdvanceCalls (calls (afterBlocks env n st)) = numAdvanceCalls (calls st) + n"
  by (induction n arbitrary: st)
     (simp_all add: calls_blockBody num_append blockCalls_counts)

lemma calls_afterBlocks_Suc:
  "calls (afterBlocks env (Suc n) st)
     = calls (afterBlocks env n st) @ blockCalls env (afterBlocks env n st)"
  by (simp only: afterBlocks_Suc_right calls_blockBody)

lemma mainLoop_runs_a_block:
  assumes "mainLoop env st = Some st'" and "\<not> finishedReading st"
  shows "\<exists>n. st' = afterBlocks env (Suc n) st \<and> finishedReading st'
     \<and> (\<forall>j<Suc n. \<not> finishedReading (afterBlocks env j st))"
proof -
  from mainLoop_Some_afterBlocks [OF assms(1)] obtain n where
    n: "st' = afterBlocks env n st" "finishedReading st'"
       "\<forall>j<n. \<not> finishedReading (afterBlocks env j st)" by blast
  from n(1,2) assms(2) have "n \<noteq> 0" by (cases n) auto
  then obtain m where "n = Suc m" by (cases n) auto
  with n show ?thesis by blast
qed

lemma verifyInputSource_calls:
  "verifyInputSource invo hp = Inl (rc, cs) \<Longrightarrow>
     rc = RETURN_CODE_MISSING_REQUIRED_OPTION \<and> (\<forall>c\<in>set cs. \<not> isSourceIO c)"
  "verifyInputSource invo hp = Inr (src, cs) \<Longrightarrow> (\<forall>c\<in>set cs. \<not> isSourceIO c)"
  by (auto simp: verifyInputSource_def split: option.splits if_splits)

lemma prepareSources_calls:
  "prepareSources invo src out = Inl (rc, cs) \<Longrightarrow>
     rc = RETURN_CODE_IO_ERROR \<and> numReadCalls cs = 0 \<and> numWriteCalls cs = 0"
  "prepareSources invo src out = Inr (sq, cs) \<Longrightarrow> numReadCalls cs = 0 \<and> numWriteCalls cs = 0"
  by (auto simp: prepareSources_def numReadCalls_def numWriteCalls_def
      split: option.splits if_splits)

lemma no_io_counts:
  "\<forall>c\<in>set cs. \<not> isSourceIO c \<Longrightarrow> numReadCalls cs = 0 \<and> numWriteCalls cs = 0"
proof (induction cs)
  case Nil
  show ?case by (simp add: numReadCalls_def numWriteCalls_def)
next
  case (Cons c cs)
  then show ?case by (cases c) (simp_all add: numReadCalls_def numWriteCalls_def)
qed

lemma run_cases:
  fixes invo :: "('s, 't, 'q, 'e) Invocation" and cs :: "'e Call list"
  assumes "run invo = Some (rc, cs)"
  shows "(rc \<noteq> RETURN_CODE_SUCCESS \<and> numReadCalls cs = 0 \<and> numWriteCalls cs = 0)
       \<or> (\<exists>src sq pre st. numReadCalls pre = 0 \<and> numWriteCalls pre = 0
            \<and> mainLoop (loopEnv invo src sq) (loopStart (handle src) pre) = Some st
            \<and> cs = calls st @ [StopAudioClock, StopTiming] \<and> rc = RETURN_CODE_SUCCESS)"
proof (cases "pluginChain invo")
  case Nil
  with assms show ?thesis by (auto simp: run_def numReadCalls_def numWriteCalls_def)
next
  case (Cons hp rest)
  note chain = Cons
  show ?thesis
  proof (cases "initializePluginChain invo")
    case False
    with assms chain show ?thesis by (auto simp: run_def numReadCalls_def numWriteCalls_def)
  next
    case init: True
    define cs0 :: "'e Call list" where "cs0 = displayCalls invo"
    have c0: "numReadCalls cs0 = 0" "numWriteCalls cs0 = 0"
      by (simp_all add: cs0_def displayCalls_def numReadCalls_def numWriteCalls_def)
    show ?thesis
    proof (cases "outputSourceOption invo")
      case None
      with assms chain init have "rc = RETURN_CODE_MISSING_REQUIRED_OPTION"
        and "cs = cs0 @ [LogError ''No output source'']"
        by (auto simp: run_def cs0_def)
      then show ?thesis using c0 by (simp add: num_append) (simp add: numReadCalls_def numWriteCalls_def)
    next
      case (Some out)
      note out = Some
      show ?thesis
      proof (cases "verifyInputSource invo hp")
        case (Inl a)
        obtain rc' cs' where a: "a = (rc', cs')" by (cases a)
        from assms chain init out Inl a have "rc = rc'" "cs = cs0 @ cs'"
          by (auto simp: run_def cs0_def)
        moreover from verifyInputSource_calls(1) [OF Inl [unfolded a]]
        have "rc' = RETURN_CODE_MISSING_REQUIRED_OPTION" "numReadCalls cs' = 0 \<and> numWriteCalls cs' = 0"
          using no_io_counts by blast+
        ultimately show ?thesis using c0 by (simp add: num_append)
      next
        case (Inr b)
        obtain src cs1 where b: "b = (src, cs1)" by (cases b)
        have c1: "numReadCalls cs1 = 0 \<and> numWriteCalls cs1 = 0"
          using verifyInputSource_calls(2) [OF Inr [unfolded b]] no_io_counts by blast
        show ?thesis
        proof (cases "prepareSources invo src out")
          case (Inl a)
          obtain rc' cs' where a: "a = (rc', cs')" by (cases a)
          from assms chain init out Inr b Inl a have "rc = rc'" "cs = cs0 @ cs1 @ cs'"
            by (auto simp: run_def cs0_def)
          moreover from prepareSources_calls(1) [OF Inl [unfolded a]]
          have "rc' = RETURN_CODE_IO_ERROR" "numReadCalls cs' = 0 \<and> numWriteCalls cs' = 0"
            by blast+
          ultimately show ?thesis using c0 c1 by (simp add: num_append)
        next
          case (Inr d)
          obtain sq cs2 where d: "d = (sq, cs2)" by (cases d)
          have c2: "numReadCalls cs2 = 0 \<and> numWriteCalls cs2 = 0"
            using prepareSources_calls(2) [OF Inr [unfolded d]] .
          define pre where "pre = (cs0 @ cs1 @ cs2) @ [NewTaskTimer (length (pluginChain invo) + 1)]"
          have p: "numReadCalls pre = 0" "numWriteCalls pre = 0"
            using c0 c1 c2 by (simp_all add: pre_def num_append)
               (simp_all add: numReadCalls_def numWriteCalls_def)
          from assms chain init out \<open>verifyInputSource invo hp = Inr b\<close> b Inr d
          have "processing invo src sq (cs0 @ cs1 @ cs2) = Some (rc, cs)"
            by (auto simp: run_def cs0_def)
          then obtain st where
            "mainLoop (loopEnv invo src sq) (loopStart (handle src) pre) = Some st"
            "rc = RETURN_CODE_SUCCESS" "cs = calls st @ [StopAudioClock, StopTiming]"
            by (auto simp: processing_def processingStart_def pre_def split: option.splits)
          with p show ?thesis by blast
        qed
      qed
    qed
  qed
qed

subsection \<open>The shape of the calls of a run\<close>

lemma calls_afterBlocks_blocks:
  "calls (afterBlocks env n st) = calls st @ concat (blocksOf env n st)"
  by (induction n arbitrary: st) (simp_all add: calls_blockBody)

lemma length_blocksOf: "length (blocksOf env n st) = n"
  by (induction n arbitrary: st) simp_all

lemma isFullBlock_blockCalls: "isFullBlock (hostTaskId env) (blocksize env) (blockCalls env st)"
  by (simp add: isFullBlock_def blockCalls_def midiPart_def blockOf_def midiBlockOf_def
      getAudioClockCurrentSample_def split: prod.splits option.splits)

lemma blocksOf_full:
  "list_all (isFullBlock (hostTaskId env) (blocksize env)) (blocksOf env n st)"
  by (induction n arbitrary: st) (simp_all add: isFullBlock_blockCalls)

lemma verifyInputSource_setup:
  "verifyInputSource invo hp = Inl (rc, cs) \<Longrightarrow>
     rc = RETURN_CODE_MISSING_REQUIRED_OPTION \<and> list_all isSetupCall cs"
  "verifyInputSource invo hp = Inr (src, cs) \<Longrightarrow> list_all isSetupCall cs"
  by (auto simp: verifyInputSource_def split: option.splits if_splits)

lemma prepareSources_setup:
  "prepareSources invo src out = Inl (rc, cs) \<Longrightarrow>
     rc = RETURN_CODE_IO_ERROR \<and> list_all isSetupCall cs"
  "prepareSources invo src out = Inr (sq, cs) \<Longrightarrow> list_all isSetupCall cs"
  by (auto simp: prepareSources_def split: option.splits if_splits)

lemma displayCalls_setup: "list_all isSetupCall (displayCalls invo)"
  by (simp add: displayCalls_def)

lemma run_shape:
  fixes invo :: "('s, 't, 'q, 'e) Invocation" and cs :: "'e Call list"
  assumes "run invo = Some (rc, cs)"
  shows "(rc \<noteq> RETURN_CODE_SUCCESS \<and> list_all isSetupCall cs)
       \<or> (\<exists>src sq pre. list_all isSetupCall pre \<and> processing invo src sq pre = Some (rc, cs))"
proof (cases "pluginChain invo")
  case Nil
  with assms show ?thesis by (auto simp: run_def)
next
  case (Cons hp rest)
  note chain = Cons
  show ?thesis
  proof (cases "initializePluginChain invo")
    case False
    with assms chain show ?thesis by (auto simp: run_def)
  next
    case init: True
    note d = displayCalls_setup [of invo]
    show ?thesis
    proof (cases "outputSourceOption invo")
      case None
      with assms chain init d show ?thesis by (auto simp: run_def)
    next
      case (Some out)
      note out = Some
      show ?thesis
      proof (cases "verifyInputSource invo hp")
        case (Inl a)
        obtain rc' cs' where a: "a = (rc', cs')" by (cases a)
        from assms chain init out Inl a have "rc = rc'" "cs = displayCalls invo @ cs'"
          by (auto simp: run_def)
        with verifyInputSource_setup(1) [OF Inl [unfolded a]] d show ?thesis by simp
      next
        case (Inr b)
        obtain src cs1 where b: "b = (src, cs1)" by (cases b)
        note c1 = verifyInputSource_setup(2) [OF Inr [unfolded b]]
        show ?thesis
        proof (cases "prepareSources invo src out")
          case (Inl a)
          obtain rc' cs' where a: "a = (rc', cs')" by (cases a)
          from assms chain init out Inr b Inl a have "rc = rc'" "cs = displayCalls invo @ cs1 @ cs'"
            by (auto simp: run_def)
          with prepareSources_setup(1) [OF Inl [unfolded a]] d c1 show ?thesis by simp
        next
          case (Inr e)
          obtain sq cs2 where e: "e = (sq, cs2)" by (cases e)
          note c2 = prepareSources_setup(2) [OF Inr [unfolded e]]
          from assms chain init out \<open>verifyInputSource invo hp = Inr b\<close> b Inr e
          have "processing invo src sq (displayCalls invo @ cs1 @ cs2) = Some (rc, cs)"
            by (auto simp: run_def)
          moreover have "list_all isSetupCall (displayCalls invo @ cs1 @ cs2)"
            using d c1 c2 by simp
          ultimately show ?thesis by blast
        qed
      qed
    qed
  qed
qed

lemma processing_shape:
  fixes invo :: "('s, 't, 'q, 'e) Invocation" and cs pre :: "'e Call list"
  assumes "processing invo src sq pre = Some (rc, cs)"
  shows "rc = RETURN_CODE_SUCCESS
     \<and> (\<exists>m. cs = pre @ [NewTaskTimer (length (pluginChain invo) + 1)]
               @ concat (blocksOf (loopEnv invo src sq) (Suc m) (processingStart invo src pre))
               @ [StopAudioClock, StopTiming])"
proof -
  let ?env = "loopEnv invo src sq" and ?start = "processingStart invo src pre"
  from assms obtain st where loop: "mainLoop ?env ?start = Some st"
    and rc: "rc = RETURN_CODE_SUCCESS" and cs: "cs = calls st @ [StopAudioClock, StopTiming]"
    by (auto simp: processing_def split: option.splits)
  have nf: "\<not> finishedReading ?start" by (simp add: processingStart_def loopStart_def)
  from mainLoop_runs_a_block [OF loop nf] obtain m where
    m: "st = afterBlocks ?env (Suc m) ?start" by blast
  have "calls ?start = pre @ [NewTaskTimer (length (pluginChain invo) + 1)]"
    by (simp add: processingStart_def loopStart_def)
  then have "cs = pre @ [NewTaskTimer (length (pluginChain invo) + 1)]
               @ concat (blocksOf ?env (Suc m) ?start) @ [StopAudioClock, StopTiming]"
    unfolding cs m calls_afterBlocks_blocks by simp
  with rc show ?thesis by blast
qed

lemma main_shape:
  fixes invo :: "('s, 't, 'q, 'e) Invocation" and cs :: "'e Call list"
  assumes "main invo = Some (rc, cs)"
  shows "(rc \<noteq> RETURN_CODE_SUCCESS \<and> list_all isSetupCall cs)
       \<or> (rc = RETURN_CODE_SUCCESS
          \<and> (\<exists>src sq pre m. list_all isSetupCall pre
                \<and> cs = pre @ [NewTaskTimer (length (pluginChain invo) + 1)]
                    @ concat (blocksOf (loopEnv invo src sq) (Suc m) (processingStart invo src pre))
                    @ [StopAudioClock, StopTiming]))"
proof (cases "run invo = Some (rc, cs)")
  case False
  with assms have "cs = [] \<and> rc \<noteq> RETURN_CODE_SUCCESS"
    by (auto simp: main_def split: if_splits)
  then show ?thesis by simp
next
  case True
  from run_shape [OF True] show ?thesis
  proof (elim disjE exE conjE)
    assume "rc \<noteq> RETURN_CODE_SUCCESS" "list_all isSetupCall cs"
    then show ?thesis by simp
  next
    fix src sq pre
    assume pre: "list_all isSetupCall pre" and p: "processing invo src sq pre = Some (rc, cs)"
    from processing_shape [OF p] pre show ?thesis by blast
  qed
qed

subsection \<open>Scenario C: an input of 1000 frames\<close>

lemma hostTaskId_loopEnv: "hostTaskId (loopEnv invo src sq) = length (pluginChain invo)"
  by (simp add: loopEnv_def newTaskTimer_def)

lemma blockBody_file:
  "readSampleBlock env = fileReadSampleBlock \<Longrightarrow> midiSequence env = None \<Longrightarrow>
   blockBody env st =
     \<lparr> inputSource = inputSource st - min (inputSource st) (blocksize env),
       audioClock = audioClock st + blocksize env,
       finishedReading = (min (inputSource st) (blocksize env) < blocksize env),
       calls = calls st
         @ blockOf (hostTaskId env) (min (inputSource st) (blocksize env)) (blocksize env) \<rparr>"
  by (simp add: blockBody_def blockCalls_def midiPart_def fileReadSampleBlock_def
      advanceAudioClock_def Let_def blockOf_def)

lemmas main_unfold =
  main_def invocation_def run_def newPlugin_def verifyInputSource_def prepareSources_def
  fileSource_def processing_def processingStart_def displayCalls_def loopEnv_def newTaskTimer_def loopStart_def initAudioClock_def

lemma scenarioC_main: "main scenarioC = Some (RETURN_CODE_SUCCESS, scenarioC_calls)"
  unfolding scenarioC_def scenarioC_calls_def
  apply (simp add: main_unfold)
  apply (simp add: mainLoop.simps blockBody_file)
  done

lemma scenarioC_flags:
  "map (\<lambda>n. finishedReading
           (afterBlocks (loopEnv scenarioC (fileSource ''in.pcm'' 1000) None) n
              (loopStart 1000 [])))
       [0, 1, 2, 3, 4]
     = [False, False, False, False, True]"
  unfolding scenarioC_def
  by (simp add: main_unfold blockBody_file eval_nat_numeral)

text \<open>
  C3. With an input source of exactly 1000 frames and block size 256, the run makes
  exactly four calls of \<^verbatim>\<open>readSampleBlock\<close>, which fill 256, 256, 256 and 232 frames;
  \<^verbatim>\<open>finishedReading\<close> is false on entry and after each of the first three blocks and
  true after the fourth, the partial one, after which the loop ends and the run
  returns with success.
\<close>

theorem scenarioC_four_reads:
  "\<exists>cs. main scenarioC = Some (RETURN_CODE_SUCCESS, cs)
      \<and> framesRead cs = [256, 256, 256, 232]
      \<and> numReadCalls cs = 4
      \<and> map (\<lambda>n. finishedReading
                 (afterBlocks (loopEnv scenarioC (fileSource ''in.pcm'' 1000) None) n
                    (loopStart 1000 [])))
             [0, 1, 2, 3, 4]
           = [False, False, False, False, True]"
  unfolding scenarioC_main scenarioC_flags
  by (simp add: scenarioC_calls_def blockOf_def numReadCalls_def)

subsection \<open>Reads and writes\<close>

lemma blockCalls_ends:
  "\<exists>pre. blockCalls env st = pre @ [ProcessPluginChainAudio, StartTimingTask (hostTaskId env),
         WriteSampleBlock, AdvanceAudioClock (blocksize env)]"
  using blockCalls_shape [of env st] by (metis append.assoc)

lemma mainLoop_calls_end:
  assumes "mainLoop env st = Some st'" and "\<not> finishedReading st"
  shows "\<exists>pre. calls st' = pre @ [ProcessPluginChainAudio, StartTimingTask (hostTaskId env),
         WriteSampleBlock, AdvanceAudioClock (blocksize env)]"
proof -
  from mainLoop_runs_a_block [OF assms] obtain n where
    n: "st' = afterBlocks env (Suc n) st" by blast
  obtain pre where "blockCalls env (afterBlocks env n st) =
      pre @ [ProcessPluginChainAudio, StartTimingTask (hostTaskId env),
         WriteSampleBlock, AdvanceAudioClock (blocksize env)]"
    using blockCalls_ends by blast
  then have "calls st' = (calls (afterBlocks env n st) @ pre)
      @ [ProcessPluginChainAudio, StartTimingTask (hostTaskId env),
         WriteSampleBlock, AdvanceAudioClock (blocksize env)]"
    unfolding n calls_afterBlocks_Suc by simp
  then show ?thesis by blast
qed

lemma numProcess_append:
  "numProcessCalls (xs @ ys) = numProcessCalls xs + numProcessCalls ys"
  by (simp add: numProcessCalls_def)

lemma setup_counts:
  "list_all isSetupCall cs \<Longrightarrow>
     numReadCalls cs = 0 \<and> numWriteCalls cs = 0 \<and> numProcessCalls cs = 0"
proof (induction cs)
  case Nil
  show ?case by (simp add: numReadCalls_def numWriteCalls_def numProcessCalls_def)
next
  case (Cons c cs)
  then show ?case
    by (cases c) (simp_all add: numReadCalls_def numWriteCalls_def numProcessCalls_def)
qed

lemma full_block_shape:
  assumes "isFullBlock host bs b"
  shows "(\<exists>frames. b = blockOf host frames bs)
      \<or> (\<exists>frames start evs. b = midiBlockOf host frames start bs evs)"
proof (cases "framesRead b")
  case Nil
  with assms show ?thesis by (simp add: isFullBlock_def)
next
  case (Cons frames fs)
  show ?thesis
  proof (cases fs)
    case (Cons f' fs')
    with assms \<open>framesRead b = frames # fs\<close> show ?thesis by (simp add: isFullBlock_def)
  next
    case Nil
    with assms \<open>framesRead b = frames # fs\<close> have
      alt: "b = blockOf host frames bs
         \<or> (case midiQueries b of
               [(start, len, evs)] \<Rightarrow> len = bs \<and> b = midiBlockOf host frames start bs evs
             | _ \<Rightarrow> False)"
      by (simp add: isFullBlock_def)
    show ?thesis
    proof (cases "b = blockOf host frames bs")
      case True
      then show ?thesis by blast
    next
      case False
      with alt have m: "(case midiQueries b of
               [(start, len, evs)] \<Rightarrow> len = bs \<and> b = midiBlockOf host frames start bs evs
             | _ \<Rightarrow> False)" by simp
      show ?thesis
      proof (cases "midiQueries b")
        case Nil
        with m show ?thesis by simp
      next
        case (Cons q qs)
        obtain start len evs where q: "q = (start, len, evs)" by (cases q)
        show ?thesis
        proof (cases qs)
          case Nil
          with m Cons q have "b = midiBlockOf host frames start bs evs" by simp
          then show ?thesis by blast
        next
          case (Cons q' qs')
          with m \<open>midiQueries b = q # qs\<close> q show ?thesis by simp
        qed
      qed
    qed
  qed
qed

lemma full_block_counts:
  assumes "isFullBlock host bs b"
  shows "numReadCalls b = 1 \<and> numWriteCalls b = 1 \<and> numProcessCalls b = 1"
  using full_block_shape [OF assms]
  by (auto simp: blockOf_def midiBlockOf_def numReadCalls_def numWriteCalls_def
      numProcessCalls_def)

lemma full_blocks_counts:
  "list_all (isFullBlock host bs) blocks \<Longrightarrow>
     numReadCalls (concat blocks) = length blocks
     \<and> numWriteCalls (concat blocks) = length blocks
     \<and> numProcessCalls (concat blocks) = length blocks"
proof (induction blocks)
  case Nil
  show ?case by (simp add: numReadCalls_def numWriteCalls_def numProcessCalls_def)
next
  case (Cons b blocks)
  then have "isFullBlock host bs b" and "list_all (isFullBlock host bs) blocks" by simp_all
  with Cons.IH full_block_counts [of host bs b] show ?case
    by (simp add: num_append numProcess_append)
qed

text \<open>
  C10. Every pass through the loop appends the calls of one whole body, whatever its
  \<^verbatim>\<open>readSampleBlock\<close> reports: a read, the MIDI part if a sequence is loaded, the audio
  processing, the write and the advance of the clock. So in every run that returns, the
  calls of \<^verbatim>\<open>writeSampleBlock\<close> and of \<^verbatim>\<open>processPluginChainAudio\<close> are as many as those
  of \<^verbatim>\<open>readSampleBlock\<close>; and the calls of a run that returns with success are some
  calls with no read, write or processing among them, then one whole body for each read,
  at least one, then the shutdown, the last body ending with the chain processing a
  block, that block being written and the clock advanced.
\<close>

theorem writes_equal_reads:
  fixes invo :: "('s, 't, 'q, 'e) Invocation" and cs :: "'e Call list"
  assumes "main invo = Some (rc, cs)"
  shows "numWriteCalls cs = numReadCalls cs
     \<and> numProcessCalls cs = numReadCalls cs
     \<and> calls (blockBody env st) = calls st @ blockCalls env st
     \<and> isFullBlock (hostTaskId env) (blocksize env) (blockCalls env st)
     \<and> (rc = RETURN_CODE_SUCCESS \<longrightarrow>
          0 < numReadCalls cs
          \<and> (\<exists>pre blocks.
                cs = pre @ concat blocks @ [StopAudioClock, StopTiming]
                \<and> numReadCalls pre = 0 \<and> numWriteCalls pre = 0 \<and> numProcessCalls pre = 0
                \<and> length blocks = numReadCalls cs
                \<and> list_all (isFullBlock (length (pluginChain invo)) (getBlocksize invo)) blocks)
          \<and> (\<exists>pre. cs = pre @ [ProcessPluginChainAudio,
                                 StartTimingTask (length (pluginChain invo)),
                                 WriteSampleBlock, AdvanceAudioClock (getBlocksize invo),
                                 StopAudioClock, StopTiming]))"
proof -
  have body: "calls (blockBody env st) = calls st @ blockCalls env st"
    by (rule calls_blockBody)
  have full: "isFullBlock (hostTaskId env) (blocksize env) (blockCalls env st)"
    by (rule isFullBlock_blockCalls)
  have tail: "numReadCalls [StopAudioClock, StopTiming :: 'e Call] = 0"
    "numWriteCalls [StopAudioClock, StopTiming :: 'e Call] = 0"
    "numProcessCalls [StopAudioClock, StopTiming :: 'e Call] = 0"
    by (simp_all add: numReadCalls_def numWriteCalls_def numProcessCalls_def)
  from main_shape [OF assms] show ?thesis
  proof (elim disjE exE conjE)
    assume "rc \<noteq> RETURN_CODE_SUCCESS" "list_all isSetupCall cs"
    with setup_counts [of cs] body full show ?thesis by simp
  next
    fix src sq pre m
    assume rc: "rc = RETURN_CODE_SUCCESS" and pre: "list_all isSetupCall pre"
      and cs: "cs = pre @ [NewTaskTimer (length (pluginChain invo) + 1)]
                 @ concat (blocksOf (loopEnv invo src sq) (Suc m) (processingStart invo src pre))
                 @ [StopAudioClock, StopTiming]"
    let ?env = "loopEnv invo src sq"
    define blocks where "blocks = blocksOf ?env (Suc m) (processingStart invo src pre)"
    define pre' where "pre' = pre @ [NewTaskTimer (length (pluginChain invo) + 1)]"
    have env: "hostTaskId ?env = length (pluginChain invo)" "blocksize ?env = getBlocksize invo"
      by (simp_all add: loopEnv_def newTaskTimer_def)
    have fb: "list_all (isFullBlock (length (pluginChain invo)) (getBlocksize invo)) blocks"
      using blocksOf_full [of ?env "Suc m" "processingStart invo src pre"]
      unfolding env blocks_def .
    have len: "length blocks = Suc m" unfolding blocks_def by (rule length_blocksOf)
    have "numReadCalls [NewTaskTimer (length (pluginChain invo) + 1) :: 'e Call] = 0"
      "numWriteCalls [NewTaskTimer (length (pluginChain invo) + 1) :: 'e Call] = 0"
      "numProcessCalls [NewTaskTimer (length (pluginChain invo) + 1) :: 'e Call] = 0"
      by (simp_all add: numReadCalls_def numWriteCalls_def numProcessCalls_def)
    with setup_counts [OF pre]
    have p: "numReadCalls pre' = 0" "numWriteCalls pre' = 0" "numProcessCalls pre' = 0"
      unfolding pre'_def num_append numProcess_append by simp_all
    have cs': "cs = pre' @ concat blocks @ [StopAudioClock, StopTiming]"
      unfolding cs pre'_def blocks_def by simp
    note fc = full_blocks_counts [OF fb, unfolded len]
    have counts: "numReadCalls cs = Suc m" "numWriteCalls cs = Suc m" "numProcessCalls cs = Suc m"
      unfolding cs' num_append numProcess_append p tail using fc by simp_all
    have ex1: "\<exists>pre blocks.
                cs = pre @ concat blocks @ [StopAudioClock, StopTiming]
                \<and> numReadCalls pre = 0 \<and> numWriteCalls pre = 0 \<and> numProcessCalls pre = 0
                \<and> length blocks = numReadCalls cs
                \<and> list_all (isFullBlock (length (pluginChain invo)) (getBlocksize invo)) blocks"
      using cs' p fb len counts(1) by (intro exI [of _ pre'] exI [of _ blocks]) simp
    have "run invo = Some (rc, cs)" using assms rc by (auto simp: main_def split: if_splits)
    from run_cases [OF this] rc obtain src' sq' pre' st' where
      loop: "mainLoop (loopEnv invo src' sq') (loopStart (handle src') pre') = Some st'"
      and cs2: "cs = calls st' @ [StopAudioClock, StopTiming]" by blast
    have nf: "\<not> finishedReading (loopStart (handle src') pre')" by (simp add: loopStart_def)
    from mainLoop_calls_end [OF loop nf] obtain q where
      "calls st' = q @ [ProcessPluginChainAudio, StartTimingTask (hostTaskId (loopEnv invo src' sq')),
         WriteSampleBlock, AdvanceAudioClock (blocksize (loopEnv invo src' sq'))]" by blast
    then have ex2: "\<exists>pre. cs = pre @ [ProcessPluginChainAudio,
                                 StartTimingTask (length (pluginChain invo)),
                                 WriteSampleBlock, AdvanceAudioClock (getBlocksize invo),
                                 StopAudioClock, StopTiming]"
      unfolding cs2 by (simp add: hostTaskId_loopEnv) (simp add: loopEnv_def)
    from counts ex1 ex2 body full show ?thesis by simp
  qed
qed

subsection \<open>The clock and the MIDI override\<close>

lemma midiQueries_blockCalls:
  assumes "midiSequence env = Some sq"
  shows "midiQueries (blockCalls env st) =
     [(audioClock st, blocksize env,
       snd (fillMidiEventsFromRange env sq (audioClock st) (blocksize env)))]"
  using assms
  by (simp add: blockCalls_def midiPart_def getAudioClockCurrentSample_def split: prod.splits)

lemma blockCalls_write_advance:
  "\<exists>pre. blockCalls env st = pre @ [WriteSampleBlock, AdvanceAudioClock (blocksize env)]"
proof -
  obtain pre where "blockCalls env st = pre @ [ProcessPluginChainAudio,
      StartTimingTask (hostTaskId env), WriteSampleBlock, AdvanceAudioClock (blocksize env)]"
    using blockCalls_ends by blast
  then have "blockCalls env st = (pre @ [ProcessPluginChainAudio,
      StartTimingTask (hostTaskId env)]) @ [WriteSampleBlock, AdvanceAudioClock (blocksize env)]"
    by simp
  then show ?thesis by blast
qed

lemma audioClock_loopStart: "audioClock (loopStart src cs) = 0"
  by (simp add: loopStart_def initAudioClock_def)

lemma audioClock_mono:
  "audioClock (afterBlocks env k st) \<le> audioClock (afterBlocks env (k + m) st)"
  by (simp add: audioClock_afterBlocks)

lemma blockBody_midi:
  "midiSequence env = Some sq \<Longrightarrow> fillMidiEventsFromRange env = rangeQuery eventsRemain \<Longrightarrow>
   readSampleBlock env (inputSource st) (blocksize env) = (ok, frames, src) \<Longrightarrow>
   blockBody env st =
     \<lparr> inputSource = src,
       audioClock = audioClock st + blocksize env,
       finishedReading = (\<not> list_ex (\<lambda>e. audioClock st + blocksize env \<le> timestamp e) sq),
       calls = calls st
         @ midiBlockOf (hostTaskId env) frames (audioClock st) (blocksize env)
             (filter (inRange (audioClock st) (blocksize env)) sq) \<rparr>"
  by (simp add: blockBody_def blockCalls_def midiPart_def rangeQuery_def eventsRemain_def
      advanceAudioClock_def getAudioClockCurrentSample_def midiBlockOf_def)

lemma scenarioD_main: "main scenarioD = Some (RETURN_CODE_SUCCESS, scenarioD_calls)"
  unfolding scenarioD_def scenarioD_calls_def scenarioD_sequence_def
  apply (simp add: main_unfold midiFile_def newSilenceSource_def)
  apply (simp add: mainLoop.simps blockBody_midi silentReadSampleBlock_def eventAt_def inRange_def)
  done

lemma blockBody_midi_file:
  "midiSequence env = Some sq \<Longrightarrow> fillMidiEventsFromRange env = rangeQuery eventsRemain \<Longrightarrow>
   readSampleBlock env = fileReadSampleBlock \<Longrightarrow>
   blockBody env st =
     \<lparr> inputSource = inputSource st - min (inputSource st) (blocksize env),
       audioClock = audioClock st + blocksize env,
       finishedReading = (\<not> list_ex (\<lambda>e. audioClock st + blocksize env \<le> timestamp e) sq),
       calls = calls st
         @ midiBlockOf (hostTaskId env) (min (inputSource st) (blocksize env)) (audioClock st)
             (blocksize env) (filter (inRange (audioClock st) (blocksize env)) sq) \<rparr>"
  by (rule blockBody_midi) (simp_all add: fileReadSampleBlock_def Let_def)

lemma endedInput_main: "main endedInput = Some (RETURN_CODE_SUCCESS, endedInput_calls)"
  unfolding endedInput_def endedInput_calls_def scenarioD_sequence_def
  apply (simp add: main_unfold midiFile_def)
  apply (simp add: mainLoop.simps blockBody_midi_file eventAt_def inRange_def)
  done

theorem writes_equal_reads_witness:
  "main endedInput = Some (RETURN_CODE_SUCCESS, endedInput_calls)
   \<and> framesRead endedInput_calls = [0, 0, 0]
   \<and> numReadCalls endedInput_calls = 3
   \<and> numWriteCalls endedInput_calls = 3
   \<and> numProcessCalls endedInput_calls = 3"
proof -
  have "numReadCalls endedInput_calls = 3" "framesRead endedInput_calls = [0, 0, 0]"
    by (simp_all add: endedInput_calls_def midiBlockOf_def numReadCalls_def)
  with writes_equal_reads [OF endedInput_main, of scenarioD_env "loopStart 0 []"] endedInput_main
  show ?thesis by simp
qed

text \<open>
  C6. The audio clock is 0 when the loop is entered; one pass through the body adds the
  block size to it, by the one call of \<^verbatim>\<open>advanceAudioClock\<close> of that pass, which is
  the last call of the pass and comes right after \<^verbatim>\<open>writeSampleBlock\<close>. So the clock
  never decreases, it is \<open>k * blocksize\<close> when block \<open>k\<close> starts, and that is the
  start sample the MIDI range query of block \<open>k\<close> is given.
\<close>

theorem audioClock_advances:
  "audioClock (loopStart src cs) = 0
   \<and> audioClock (blockBody env st) = audioClock st + blocksize env
   \<and> audioClock (afterBlocks env k (loopStart src cs)) = k * blocksize env
   \<and> audioClock (afterBlocks env k st) \<le> audioClock (afterBlocks env (k + m) st)
   \<and> numAdvanceCalls (blockCalls env st) = 1
   \<and> (\<exists>pre. blockCalls env st = pre @ [WriteSampleBlock, AdvanceAudioClock (blocksize env)])
   \<and> (midiSequence env = Some sq \<longrightarrow>
        midiQueries (blockCalls env (afterBlocks env k (loopStart src cs)))
          = [(k * blocksize env, blocksize env,
              snd (fillMidiEventsFromRange env sq (k * blocksize env) (blocksize env)))])"
proof -
  have c: "audioClock (afterBlocks env k (loopStart src cs)) = k * blocksize env"
    by (simp add: audioClock_afterBlocks audioClock_loopStart)
  have q: "midiSequence env = Some sq \<longrightarrow>
        midiQueries (blockCalls env (afterBlocks env k (loopStart src cs)))
          = [(k * blocksize env, blocksize env,
              snd (fillMidiEventsFromRange env sq (k * blocksize env) (blocksize env)))]"
    by (simp add: midiQueries_blockCalls c)
  show ?thesis
    using audioClock_loopStart [of src cs] audioClock_blockBody [of env st] c
      audioClock_mono [of env k st m] blockCalls_counts(3) [of env st]
      blockCalls_write_advance [of env st] q
    by blast
qed

theorem audioClock_advances_witness:
  "midiSequence scenarioD_env = Some scenarioD_sequence
   \<and> audioClock (afterBlocks scenarioD_env 2 (loopStart 0 [])) = 512
   \<and> midiQueries (blockCalls scenarioD_env (afterBlocks scenarioD_env 2 (loopStart 0 [])))
       = [(512, 256, [eventAt 600])]"
proof -
  have sq: "midiSequence scenarioD_env = Some scenarioD_sequence"
    by (simp add: scenarioD_env_def loopEnv_def)
  have bs: "blocksize scenarioD_env = 256"
    by (simp add: scenarioD_env_def loopEnv_def scenarioD_def invocation_def)
  have fill: "snd (fillMidiEventsFromRange scenarioD_env scenarioD_sequence 512 256)
                = [eventAt 600]"
    by (simp add: scenarioD_env_def loopEnv_def scenarioD_def invocation_def rangeQuery_def eventsRemain_def
        scenarioD_sequence_def eventAt_def inRange_def)
  show ?thesis
    using audioClock_advances [of 0 "[]" scenarioD_env "loopStart 0 []" 2 1 scenarioD_sequence]
      sq fill
    by (simp add: bs)
qed

text \<open>
  C9. With a MIDI sequence loaded, \<^verbatim>\<open>finishedReading\<close> after a block is the negated
  result of \<^verbatim>\<open>fillMidiEventsFromRange\<close> on that block's window, whatever
  \<^verbatim>\<open>readSampleBlock\<close> does (\<open>rd\<close> is any behaviour of the input source). So the loop
  goes on while the query reports that events remain and ends after the first block
  whose query reports that none do.
\<close>

theorem midi_overrides_finishedReading:
  assumes "midiSequence env = Some sq"
  shows "finishedReading (blockBody (env \<lparr> readSampleBlock := rd \<rparr>) st)
           = (\<not> fst (fillMidiEventsFromRange env sq (audioClock st) (blocksize env)))
     \<and> ((\<forall>j<n. fst (fillMidiEventsFromRange env sq (j * blocksize env) (blocksize env)))
          \<and> \<not> fst (fillMidiEventsFromRange env sq (n * blocksize env) (blocksize env))
        \<longrightarrow> mainLoop (env \<lparr> readSampleBlock := rd \<rparr>) (loopStart src cs)
              = Some (afterBlocks (env \<lparr> readSampleBlock := rd \<rparr>) (Suc n) (loopStart src cs)))"
proof -
  let ?env = "env \<lparr> readSampleBlock := rd \<rparr>"
  have fin: "finishedReading (blockBody ?env s)
           = (\<not> fst (fillMidiEventsFromRange env sq (audioClock s) (blocksize env)))" for s
    using assms
    by (simp add: blockBody_def midiPart_def getAudioClockCurrentSample_def split: prod.splits)
  have clock: "audioClock (afterBlocks ?env j (loopStart src cs)) = j * blocksize env" for j
    by (simp add: audioClock_afterBlocks audioClock_loopStart)
  have flag: "finishedReading (afterBlocks ?env (Suc j) (loopStart src cs))
           = (\<not> fst (fillMidiEventsFromRange env sq (j * blocksize env) (blocksize env)))" for j
    unfolding afterBlocks_Suc_right fin clock ..
  have "mainLoop ?env (loopStart src cs) = Some (afterBlocks ?env (Suc n) (loopStart src cs))"
    if more: "\<forall>j<n. fst (fillMidiEventsFromRange env sq (j * blocksize env) (blocksize env))"
      and last: "\<not> fst (fillMidiEventsFromRange env sq (n * blocksize env) (blocksize env))"
  proof (rule mainLoop_stops)
    fix j assume "j < Suc n"
    show "\<not> finishedReading (afterBlocks ?env j (loopStart src cs))"
    proof (cases j)
      case 0
      then show ?thesis by (simp add: loopStart_def)
    next
      case (Suc i)
      with \<open>j < Suc n\<close> more
      have "fst (fillMidiEventsFromRange env sq (i * blocksize env) (blocksize env))" by simp
      then show ?thesis unfolding Suc flag by simp
    qed
  next
    show "finishedReading (afterBlocks ?env (Suc n) (loopStart src cs))"
      using last by (simp add: flag del: afterBlocks.simps)
  qed
  with fin show ?thesis by blast
qed


theorem midi_overrides_finishedReading_witness:
  "midiSequence scenarioD_env = Some scenarioD_sequence
   \<and> \<not> fst (fileReadSampleBlock 0 256)
   \<and> \<not> finishedReading
         (blockBody (scenarioD_env \<lparr> readSampleBlock := fileReadSampleBlock \<rparr>) (loopStart 0 []))
   \<and> mainLoop (scenarioD_env \<lparr> readSampleBlock := fileReadSampleBlock \<rparr>) (loopStart 0 [])
       = Some (afterBlocks (scenarioD_env \<lparr> readSampleBlock := fileReadSampleBlock \<rparr>) 3
                 (loopStart 0 []))"
proof -
  have sq: "midiSequence scenarioD_env = Some scenarioD_sequence"
    by (simp add: scenarioD_env_def loopEnv_def)
  have bs: "blocksize scenarioD_env = 256"
    by (simp add: scenarioD_env_def loopEnv_def scenarioD_def invocation_def)
  have fill: "fillMidiEventsFromRange scenarioD_env = rangeQuery eventsRemain"
    by (simp add: scenarioD_env_def loopEnv_def scenarioD_def invocation_def)
  have more: "\<forall>j<2. fst (fillMidiEventsFromRange scenarioD_env scenarioD_sequence
                   (j * blocksize scenarioD_env) (blocksize scenarioD_env))"
    by (simp add: bs fill rangeQuery_def eventsRemain_def scenarioD_sequence_def eventAt_def)
  have last: "\<not> fst (fillMidiEventsFromRange scenarioD_env scenarioD_sequence
                   (2 * blocksize scenarioD_env) (blocksize scenarioD_env))"
    by (simp add: bs fill rangeQuery_def eventsRemain_def scenarioD_sequence_def eventAt_def)
  have first: "fst (fillMidiEventsFromRange scenarioD_env scenarioD_sequence
                   (audioClock (loopStart (0::nat) ([] :: MidiEvent Call list)))
                   (blocksize scenarioD_env))"
    by (simp add: bs fill rangeQuery_def eventsRemain_def scenarioD_sequence_def eventAt_def loopStart_def
        initAudioClock_def)
  have eos: "\<not> fst (fileReadSampleBlock 0 256)"
    by (simp add: fileReadSampleBlock_def)
  show ?thesis
    using midi_overrides_finishedReading [OF sq, of fileReadSampleBlock "loopStart 0 []" 2 0 "[]"]
      sq more last first eos
    by (simp add: eval_nat_numeral)
qed

subsection \<open>The end of the loop without MIDI\<close>

lemma finishedReading_no_midi:
  "midiSequence env = None \<Longrightarrow> finishedReading (blockBody env st) = (\<not> readResult env st)"
  by (simp add: blockBody_def midiPart_def readResult_def split: prod.splits)

lemma mainLoop_no_midi_stops:
  assumes "midiSequence env = None"
    and "\<forall>j<n. readResult env (afterBlocks env j (loopStart src cs))"
    and "\<not> readResult env (afterBlocks env n (loopStart src cs))"
  shows "mainLoop env (loopStart src cs) = Some (afterBlocks env (Suc n) (loopStart src cs))"
proof (rule mainLoop_stops)
  fix j assume j: "j < Suc n"
  show "\<not> finishedReading (afterBlocks env j (loopStart src cs))"
  proof (cases j)
    case 0
    then show ?thesis by (simp add: loopStart_def)
  next
    case (Suc i)
    with j assms(2) have "readResult env (afterBlocks env i (loopStart src cs))" by simp
    then show ?thesis
      unfolding Suc afterBlocks_Suc_right finishedReading_no_midi [OF assms(1)] by simp
  qed
next
  show "finishedReading (afterBlocks env (Suc n) (loopStart src cs))"
    unfolding afterBlocks_Suc_right finishedReading_no_midi [OF assms(1)] using assms(3) by simp
qed

lemma mainLoop_no_midi_Some:
  assumes "midiSequence env = None"
    and "mainLoop env (loopStart src cs) = Some st"
  shows "\<exists>n. (\<forall>j<n. readResult env (afterBlocks env j (loopStart src cs)))
      \<and> \<not> readResult env (afterBlocks env n (loopStart src cs))
      \<and> st = afterBlocks env (Suc n) (loopStart src cs)"
proof -
  have nf: "\<not> finishedReading (loopStart src cs)" by (simp add: loopStart_def)
  from mainLoop_runs_a_block [OF assms(2) nf] obtain n where
    n: "st = afterBlocks env (Suc n) (loopStart src cs)" "finishedReading st"
       "\<forall>j<Suc n. \<not> finishedReading (afterBlocks env j (loopStart src cs))" by blast
  have "\<not> readResult env (afterBlocks env n (loopStart src cs))"
    using n(2) unfolding n(1) afterBlocks_Suc_right finishedReading_no_midi [OF assms(1)] by simp
  moreover have "\<forall>j<n. readResult env (afterBlocks env j (loopStart src cs))"
  proof (intro allI impI)
    fix j assume "j < n"
    then have "\<not> finishedReading (afterBlocks env (Suc j) (loopStart src cs))"
      using n(3) by (simp del: afterBlocks.simps)
    then show "readResult env (afterBlocks env j (loopStart src cs))"
      unfolding afterBlocks_Suc_right finishedReading_no_midi [OF assms(1)] by simp
  qed
  ultimately show ?thesis using n(1) by blast
qed

lemma midiSequence_loopEnv: "midiSequence (loopEnv invo src sq) = sq"
  by (simp add: loopEnv_def)

text \<open>
  C2, as amended. In a run with no MIDI sequence, \<^verbatim>\<open>finishedReading\<close> after a block is
  the negated result of that block's \<^verbatim>\<open>readSampleBlock\<close>; the loop ends after the
  first block whose read reports no full block, and only then; and the run then returns
  \<^verbatim>\<open>RETURN_CODE_SUCCESS\<close>: the end of the input is the regular end of the loop, not an
  error. (With a MIDI sequence the flag follows the MIDI range query instead.)
\<close>

theorem loop_ends_at_input_end:
  fixes invo :: "('s, 't, 'q, 'e) Invocation" and cs0 cs :: "'e Call list"
  shows
   "finishedReading (blockBody (loopEnv invo src None) st)
      = (\<not> readResult (loopEnv invo src None) st)
    \<and> ((\<forall>j<n. readResult (loopEnv invo src None)
                 (afterBlocks (loopEnv invo src None) j (processingStart invo src cs0)))
         \<and> \<not> readResult (loopEnv invo src None)
                 (afterBlocks (loopEnv invo src None) n (processingStart invo src cs0))
        \<longrightarrow> processing invo src None cs0
             = Some (RETURN_CODE_SUCCESS,
                     calls (afterBlocks (loopEnv invo src None) (Suc n)
                              (processingStart invo src cs0))
                     @ [StopAudioClock, StopTiming]))
    \<and> (processing invo src None cs0 = Some (rc, cs)
        \<longrightarrow> rc = RETURN_CODE_SUCCESS
           \<and> (\<exists>m. (\<forall>j<m. readResult (loopEnv invo src None)
                          (afterBlocks (loopEnv invo src None) j (processingStart invo src cs0)))
                \<and> \<not> readResult (loopEnv invo src None)
                          (afterBlocks (loopEnv invo src None) m (processingStart invo src cs0))
                \<and> cs = calls (afterBlocks (loopEnv invo src None) (Suc m)
                                 (processingStart invo src cs0))
                       @ [StopAudioClock, StopTiming]))"
proof -
  let ?env = "loopEnv invo src None"
  let ?start = "processingStart invo src cs0"
  have nm: "midiSequence ?env = None" by (rule midiSequence_loopEnv)
  have start: "?start = loopStart (handle src)
      (cs0 @ [NewTaskTimer (length (pluginChain invo) + 1)])"
    by (simp add: processingStart_def)
  have a: "finishedReading (blockBody ?env st) = (\<not> readResult ?env st)"
    by (rule finishedReading_no_midi [OF nm])
  have b: "processing invo src None cs0
             = Some (RETURN_CODE_SUCCESS,
                     calls (afterBlocks ?env (Suc n) ?start) @ [StopAudioClock, StopTiming])"
    if "\<forall>j<n. readResult ?env (afterBlocks ?env j ?start)"
      and "\<not> readResult ?env (afterBlocks ?env n ?start)"
  proof -
    have "mainLoop ?env ?start = Some (afterBlocks ?env (Suc n) ?start)"
      using that unfolding start by (rule mainLoop_no_midi_stops [OF nm])
    then show ?thesis by (simp add: processing_def)
  qed
  have c: "rc = RETURN_CODE_SUCCESS
           \<and> (\<exists>m. (\<forall>j<m. readResult ?env (afterBlocks ?env j ?start))
                \<and> \<not> readResult ?env (afterBlocks ?env m ?start)
                \<and> cs = calls (afterBlocks ?env (Suc m) ?start) @ [StopAudioClock, StopTiming])"
    if p: "processing invo src None cs0 = Some (rc, cs)"
  proof -
    from p obtain st' where loop: "mainLoop ?env ?start = Some st'"
      and rc: "rc = RETURN_CODE_SUCCESS" and cs: "cs = calls st' @ [StopAudioClock, StopTiming]"
      by (auto simp: processing_def split: option.splits)
    from mainLoop_no_midi_Some [OF nm loop [unfolded start]] rc cs show ?thesis
      unfolding start by blast
  qed
  from a b c show ?thesis by blast
qed

lemma scenarioC_reads:
  "\<forall>j<3. readResult (loopEnv scenarioC (fileSource ''in.pcm'' 1000) None)
      (afterBlocks (loopEnv scenarioC (fileSource ''in.pcm'' 1000) None) j
         (processingStart scenarioC (fileSource ''in.pcm'' 1000)
            [OpenInputSource, OpenOutputSource]))"
  "\<not> readResult (loopEnv scenarioC (fileSource ''in.pcm'' 1000) None)
      (afterBlocks (loopEnv scenarioC (fileSource ''in.pcm'' 1000) None) 3
         (processingStart scenarioC (fileSource ''in.pcm'' 1000)
            [OpenInputSource, OpenOutputSource]))"
  unfolding scenarioC_def
  by (simp_all add: main_unfold blockBody_file eval_nat_numeral readResult_def
      fileReadSampleBlock_def All_less_Suc)

theorem loop_ends_at_input_end_witness:
  "readResult (loopEnv scenarioC (fileSource ''in.pcm'' 1000) None)
      (afterBlocks (loopEnv scenarioC (fileSource ''in.pcm'' 1000) None) 0
         (processingStart scenarioC (fileSource ''in.pcm'' 1000)
            [OpenInputSource, OpenOutputSource]))
   \<and> readResult (loopEnv scenarioC (fileSource ''in.pcm'' 1000) None)
      (afterBlocks (loopEnv scenarioC (fileSource ''in.pcm'' 1000) None) 1
         (processingStart scenarioC (fileSource ''in.pcm'' 1000)
            [OpenInputSource, OpenOutputSource]))
   \<and> readResult (loopEnv scenarioC (fileSource ''in.pcm'' 1000) None)
      (afterBlocks (loopEnv scenarioC (fileSource ''in.pcm'' 1000) None) 2
         (processingStart scenarioC (fileSource ''in.pcm'' 1000)
            [OpenInputSource, OpenOutputSource]))
   \<and> \<not> readResult (loopEnv scenarioC (fileSource ''in.pcm'' 1000) None)
      (afterBlocks (loopEnv scenarioC (fileSource ''in.pcm'' 1000) None) 3
         (processingStart scenarioC (fileSource ''in.pcm'' 1000)
            [OpenInputSource, OpenOutputSource]))
   \<and> processing scenarioC (fileSource ''in.pcm'' 1000) None [OpenInputSource, OpenOutputSource]
       = Some (RETURN_CODE_SUCCESS, scenarioC_calls)"
proof -
  have calls: "calls (afterBlocks (loopEnv scenarioC (fileSource ''in.pcm'' 1000) None) (Suc 3)
         (processingStart scenarioC (fileSource ''in.pcm'' 1000)
            [OpenInputSource, OpenOutputSource])) @ [StopAudioClock, StopTiming]
      = scenarioC_calls"
    unfolding scenarioC_def scenarioC_calls_def
    by (simp add: main_unfold blockBody_file eval_nat_numeral)
  have each: "readResult (loopEnv scenarioC (fileSource ''in.pcm'' 1000) None)
      (afterBlocks (loopEnv scenarioC (fileSource ''in.pcm'' 1000) None) j
         (processingStart scenarioC (fileSource ''in.pcm'' 1000)
            [OpenInputSource, OpenOutputSource]))" if "j < 3" for j
    using scenarioC_reads(1) that by blast
  show ?thesis
    using loop_ends_at_input_end [of scenarioC "fileSource ''in.pcm'' 1000"
        "processingStart scenarioC (fileSource ''in.pcm'' 1000) []" 3
        "[OpenInputSource, OpenOutputSource]" RETURN_CODE_SUCCESS scenarioC_calls]
      scenarioC_reads calls each [of 0] each [of 1] each [of 2]
    by simp
qed

text \<open>
  C2, as stated, fails when a MIDI sequence is loaded: in scenario D every read of the
  silent input fills its block, yet the loop ends after the third block, because the
  range query reports that no events remain.
\<close>

theorem loop_ends_at_input_end_counterexample:
  "main scenarioD = Some (RETURN_CODE_SUCCESS, scenarioD_calls)
   \<and> framesRead scenarioD_calls = [256, 256, 256]
   \<and> readResult scenarioD_env (afterBlocks scenarioD_env 2 (loopStart 0 []))
   \<and> finishedReading (blockBody scenarioD_env (afterBlocks scenarioD_env 2 (loopStart 0 [])))"
proof -
  have env: "midiSequence scenarioD_env = Some scenarioD_sequence"
    "fillMidiEventsFromRange scenarioD_env = rangeQuery eventsRemain"
    "readSampleBlock scenarioD_env = silentReadSampleBlock"
    "blocksize scenarioD_env = 256"
    by (simp_all add: scenarioD_env_def loopEnv_def scenarioD_def invocation_def
        newSilenceSource_def)
  have rd: "readSampleBlock scenarioD_env (inputSource s) (blocksize scenarioD_env)
      = (True, 256, inputSource s)" for s :: "(nat, MidiEvent) LoopState"
    by (simp add: env silentReadSampleBlock_def)
  have "readResult scenarioD_env (afterBlocks scenarioD_env 2 (loopStart 0 []))"
    by (simp add: readResult_def env silentReadSampleBlock_def)
  moreover have "finishedReading
      (blockBody scenarioD_env (afterBlocks scenarioD_env 2 (loopStart 0 [])))"
    by (simp add: eval_nat_numeral blockBody_midi [OF env(1,2) rd] loopStart_def
        initAudioClock_def env scenarioD_sequence_def eventAt_def)
  moreover have "framesRead scenarioD_calls = [256, 256, 256]"
    by (simp add: scenarioD_calls_def midiBlockOf_def)
  ultimately show ?thesis using scenarioD_main by simp
qed

subsection \<open>The checks before the loop\<close>

text \<open>
  C4. When the plugin chain is empty, the run (lines 142-277, what \<^verbatim>\<open>main\<close> does once
  the command line is handled) stops with \<^verbatim>\<open>RETURN_CODE_MISSING_REQUIRED_OPTION\<close> after
  logging the error and nothing else; and \<^verbatim>\<open>main\<close> as a whole then opens, reads and
  writes no source: it returns either that result or, when the command line handling ends
  the program first, one of its codes with no call made.
\<close>

theorem no_plugins_aborts:
  fixes invo :: "('s, 't, 'q, 'e) Invocation"
  assumes "pluginChain invo = []"
  shows "run invo = Some (RETURN_CODE_MISSING_REQUIRED_OPTION, [LogError ''No plugins loaded''])
     \<and> (\<exists>rc cs. main invo = Some (rc, cs) \<and> (\<forall>c\<in>set cs. \<not> isSourceIO c)
           \<and> (main invo = run invo
               \<or> cs = [] \<and> (rc = RETURN_CODE_INVALID_ARGUMENT \<or> rc = RETURN_CODE_NOT_RUN
                             \<or> rc = RETURN_CODE_INVALID_PLUGIN_CHAIN)))"
proof -
  have r: "run invo = Some (RETURN_CODE_MISSING_REQUIRED_OPTION, [LogError ''No plugins loaded''])"
    using assms by (simp add: run_def)
  show ?thesis
  proof (cases "main invo = run invo")
    case True
    with r show ?thesis by simp
  next
    case False
    then have "main invo = Some (RETURN_CODE_INVALID_ARGUMENT, [])
       \<or> main invo = Some (RETURN_CODE_NOT_RUN, [])
       \<or> main invo = Some (RETURN_CODE_INVALID_PLUGIN_CHAIN, [])"
      by (auto simp: main_def split: if_splits)
    with r show ?thesis by auto
  qed
qed

theorem no_plugins_aborts_witness:
  "pluginChain noPlugins = []
   \<and> main noPlugins = Some (RETURN_CODE_MISSING_REQUIRED_OPTION, [LogError ''No plugins loaded''])"
  using no_plugins_aborts [of noPlugins]
  by (simp add: noPlugins_def invocation_def main_def)

text \<open>
  C5, as amended. When the chain has initialised, an output source is given and no input
  source is given: if the first plugin is an instrument and no MIDI source is given, the
  run creates the silent source and stops with \<^verbatim>\<open>RETURN_CODE_MISSING_REQUIRED_OPTION\<close>,
  its error naming the missing MIDI source; if the first plugin is an instrument and a
  MIDI source is given, the silent source is the input and the run goes on to open the
  sources; if the first plugin is not an instrument, the run stops with the same code,
  its error naming the missing input source.
\<close>

theorem instrument_needs_midi:
  fixes invo :: "('s, 't, 'q, 'e) Invocation"
  assumes "pluginChain invo = headPlugin # rest"
    and "initializePluginChain invo"
    and "outputSourceOption invo = Some out"
    and "inputSourceOption invo = None"
  shows "(pluginType headPlugin = instrumentType invo \<and> midiSourceOption invo = None \<longrightarrow>
            run invo = Some (RETURN_CODE_MISSING_REQUIRED_OPTION,
              displayCalls invo @ [NewSilenceSource,
                LogError ''Plugin chain contains an instrument, but no MIDI source was supplied'']))
       \<and> (pluginType headPlugin = instrumentType invo \<and> midiSourceOption invo = Some ms \<longrightarrow>
            verifyInputSource invo headPlugin = Inr (silenceSource invo, [NewSilenceSource])
            \<and> run invo =
                (case prepareSources invo (silenceSource invo) out of
                   Inl (rc, cs) \<Rightarrow> Some (rc, displayCalls invo @ [NewSilenceSource] @ cs)
                 | Inr (sq, cs) \<Rightarrow>
                     processing invo (silenceSource invo) sq
                       (displayCalls invo @ [NewSilenceSource] @ cs)))
       \<and> (pluginType headPlugin \<noteq> instrumentType invo \<longrightarrow>
            run invo = Some (RETURN_CODE_MISSING_REQUIRED_OPTION,
              displayCalls invo @ [LogError ''No input source'']))"
  using assms by (simp add: run_def verifyInputSource_def Let_def)

theorem instrument_needs_midi_witness:
  "pluginChain scenarioB = [newPlugin PLUGIN_TYPE_INSTRUMENT ''plugin'']
   \<and> initializePluginChain scenarioB
   \<and> outputSourceOption scenarioB = Some (fileSource ''out.pcm'' 0)
   \<and> inputSourceOption scenarioB = None
   \<and> pluginType (newPlugin PLUGIN_TYPE_INSTRUMENT ''plugin'' :: (PluginRole, unit, unit) PluginMembers)
       = instrumentType scenarioB
   \<and> midiSourceOption scenarioB = None
   \<and> main scenarioB = Some (RETURN_CODE_MISSING_REQUIRED_OPTION,
        [NewSilenceSource,
         LogError ''Plugin chain contains an instrument, but no MIDI source was supplied''])
   \<and> pluginChain effectNoInput = [newPlugin PLUGIN_TYPE_EFFECT ''plugin'']
   \<and> inputSourceOption effectNoInput = None
   \<and> pluginType (newPlugin PLUGIN_TYPE_EFFECT ''plugin'' :: (PluginRole, unit, unit) PluginMembers)
       \<noteq> instrumentType effectNoInput
   \<and> main effectNoInput
       = Some (RETURN_CODE_MISSING_REQUIRED_OPTION, [LogError ''No input source''])
   \<and> pluginChain scenarioD = [newPlugin PLUGIN_TYPE_INSTRUMENT ''plugin'']
   \<and> inputSourceOption scenarioD = None
   \<and> midiSourceOption scenarioD = Some (midiFile scenarioD_sequence)
   \<and> verifyInputSource scenarioD (newPlugin PLUGIN_TYPE_INSTRUMENT ''plugin'')
       = Inr (newSilenceSource, [NewSilenceSource])"
  using instrument_needs_midi [of scenarioB "newPlugin PLUGIN_TYPE_INSTRUMENT ''plugin''" "[]"
      "fileSource ''out.pcm'' 0" "midiFile []"]
    instrument_needs_midi [of effectNoInput "newPlugin PLUGIN_TYPE_EFFECT ''plugin''" "[]"
      "fileSource ''out.pcm'' 0" "midiFile []"]
    instrument_needs_midi [of scenarioD "newPlugin PLUGIN_TYPE_INSTRUMENT ''plugin''" "[]"
      "fileSource ''out.pcm'' 0" "midiFile scenarioD_sequence"]
  by (simp add: scenarioB_def effectNoInput_def scenarioD_def invocation_def main_def
      newPlugin_def displayCalls_def)

text \<open>
  C5, as stated, fails when the checks before the input source stop the run: with no
  output source the error names the output source, and with a chain that does not
  initialise the run returns \<^verbatim>\<open>RETURN_CODE_PLUGIN_ERROR\<close>.
\<close>

theorem instrument_needs_midi_counterexample:
  "inputSourceOption scenarioB_noOutput = None
   \<and> midiSourceOption scenarioB_noOutput = None
   \<and> pluginType (hd (pluginChain scenarioB_noOutput)) = instrumentType scenarioB_noOutput
   \<and> main scenarioB_noOutput
       = Some (RETURN_CODE_MISSING_REQUIRED_OPTION, [LogError ''No output source''])
   \<and> inputSourceOption scenarioB_initFails = None
   \<and> midiSourceOption scenarioB_initFails = None
   \<and> pluginType (hd (pluginChain scenarioB_initFails)) = instrumentType scenarioB_initFails
   \<and> main scenarioB_initFails
       = Some (RETURN_CODE_PLUGIN_ERROR, [LogError ''Could not initialize plugin chain''])"
  by (simp add: scenarioB_noOutput_def scenarioB_initFails_def scenarioB_def invocation_def
      main_def run_def newPlugin_def displayCalls_def)















subsection \<open>The windows of the MIDI range queries\<close>



lemma fold_max_mem: "fold max xs (a::nat) = a \<or> fold max xs a \<in> set xs"
proof (induction xs arbitrary: a)
  case Nil
  show ?case by simp
next
  case (Cons y ys)
  from Cons.IH [of "max y a"] show ?case by (auto simp: max_def split: if_splits)
qed


lemma lastTimestamp_attained:
  "0 < lastTimestamp sq \<Longrightarrow> \<exists>e\<in>set sq. timestamp e = lastTimestamp sq"
  using fold_max_mem [of "map timestamp sq" 0] unfolding lastTimestamp_def by auto




















subsection \<open>The total of the task timer\<close>






































lemma setup_not_start: "isSetupCall c \<Longrightarrow> c \<noteq> StartTimingTask task"
  by (cases c) simp_all

lemma body_start: "isBodyCall host c \<Longrightarrow> c = StartTimingTask task \<Longrightarrow> task = host"
  by simp












end
